theory Spec2Isabelle
  imports Main
begin

section \<open>Python values\<close>

text \<open>
  The metadata records handled by \<^verbatim>\<open>dandi/cli/cmd_ls.py\<close> and
  \<^verbatim>\<open>dandi/validate.py\<close> are JSON/YAML-like Python values: \<^verbatim>\<open>None\<close>, booleans,
  unbounded integers, strings, lists, tuples and dictionaries with string keys. A
  dictionary is an association list in insertion order (Python dictionaries iterate in
  insertion order); a well-formed dictionary has distinct keys. Floats, dates and user
  objects are outside this value universe. A string is a list of 8-bit characters, read
  as the code points 0..255.
\<close>

datatype pyval =
    VNone
  | VBool bool
  | VInt int
  | VStr string
  | VList "pyval list"
  | VTuple "pyval list"
  | VDict "(string \<times> pyval) list"

type_synonym pydict = "(string \<times> pyval) list"

text \<open>Truth value of a Python object (\<^verbatim>\<open>bool(v)\<close>, as used by \<^verbatim>\<open>not v\<close>).\<close>

fun truthy :: "pyval \<Rightarrow> bool" where
  "truthy VNone = False"
| "truthy (VBool b) = b"
| "truthy (VInt i) = (i \<noteq> 0)"
| "truthy (VStr s) = (s \<noteq> [])"
| "truthy (VList xs) = (xs \<noteq> [])"
| "truthy (VTuple xs) = (xs \<noteq> [])"
| "truthy (VDict kvs) = (kvs \<noteq> [])"

subsection \<open>Dictionary operations\<close>

text \<open>\<^verbatim>\<open>d.get(k)\<close>: the value stored under \<open>k\<close>, if any.\<close>

definition dget :: "('k \<times> 'v) list \<Rightarrow> 'k \<Rightarrow> 'v option" where
  "dget d k = map_of d k"

text \<open>\<^verbatim>\<open>d[k] = v\<close>: an existing key keeps its position, a new key is appended.\<close>

fun dset :: "('k \<times> 'v) list \<Rightarrow> 'k \<Rightarrow> 'v \<Rightarrow> ('k \<times> 'v) list" where
  "dset [] k v = [(k, v)]"
| "dset ((k', v') # d) k v = (if k' = k then (k, v) # d else (k', v') # dset d k v)"

text \<open>\<^verbatim>\<open>k in d\<close>.\<close>

definition dhas :: "('k \<times> 'v) list \<Rightarrow> 'k \<Rightarrow> bool" where
  "dhas d k = (k \<in> set (map fst d))"

subsection \<open>\<^verbatim>\<open>str\<close> and \<^verbatim>\<open>repr\<close>\<close>

text \<open>\<^verbatim>\<open>", ".join(xs)\<close> and friends.\<close>

fun join :: "string \<Rightarrow> string list \<Rightarrow> string" where
  "join sep [] = []"
| "join sep [x] = x"
| "join sep (x # y # xs) = x @ sep @ join sep (y # xs)"

text \<open>Decimal digits of a natural number, and \<^verbatim>\<open>str\<close> of an integer.\<close>

fun str_nat :: "nat \<Rightarrow> string" where
  "str_nat n = (if n < 10 then [''0123456789'' ! n]
                else str_nat (n div 10) @ [''0123456789'' ! (n mod 10)])"

declare str_nat.simps [simp del]

definition str_int :: "int \<Rightarrow> string" where
  "str_int i = (if i < 0 then CHR ''-'' # str_nat (nat (- i)) else str_nat (nat i))"

text \<open>
  \<^verbatim>\<open>repr\<close> of a string, as CPython writes it for code points below 256: single quotes
  unless the string holds a single quote and no double quote; backslash, the chosen
  quote, tab, newline and carriage return are escaped with a backslash, the other
  non-printable code points (below 32, 127 to 160, and 173) as \<^verbatim>\<open>\xHH\<close>.
\<close>

definition hex2 :: "nat \<Rightarrow> string" where
  "hex2 n = [''0123456789abcdef'' ! (n div 16), ''0123456789abcdef'' ! (n mod 16)]"

definition repr_char :: "char \<Rightarrow> char \<Rightarrow> string" where
  "repr_char q c =
     (let n = (of_char c :: nat) in
      if c = q \<or> c = CHR 0x5C then [CHR 0x5C, c]
      else if n = 9 then [CHR 0x5C, CHR ''t'']
      else if n = 10 then [CHR 0x5C, CHR ''n'']
      else if n = 13 then [CHR 0x5C, CHR ''r'']
      else if n < 32 \<or> (127 \<le> n \<and> n \<le> 160) \<or> n = 173 then [CHR 0x5C, CHR ''x''] @ hex2 n
      else [c])"

definition repr_str :: "string \<Rightarrow> string" where
  "repr_str s =
     (let q = (if CHR 0x27 \<in> set s \<and> CHR 0x22 \<notin> set s then CHR 0x22 else CHR 0x27)
      in [q] @ concat (map (repr_char q) s) @ [q])"

fun py_repr :: "pyval \<Rightarrow> string" where
  "py_repr VNone = ''None''"
| "py_repr (VBool b) = (if b then ''True'' else ''False'')"
| "py_repr (VInt i) = str_int i"
| "py_repr (VStr s) = repr_str s"
| "py_repr (VList xs) = ''['' @ join '', '' (map py_repr xs) @ '']''"
| "py_repr (VTuple xs) =
     (case xs of [x] \<Rightarrow> ''('' @ py_repr x @ '',)''
      | _ \<Rightarrow> ''('' @ join '', '' (map py_repr xs) @ '')'')"
| "py_repr (VDict kvs) =
     ''{'' @ join '', '' (map (\<lambda>kv. repr_str (fst kv) @ '': '' @ py_repr (snd kv)) kvs) @ ''}''"

text \<open>\<^verbatim>\<open>str(v)\<close>: a string is itself, everything else prints as its \<^verbatim>\<open>repr\<close>.\<close>

definition py_str :: "pyval \<Rightarrow> string" where
  "py_str v = (case v of VStr s \<Rightarrow> s | _ \<Rightarrow> py_repr v)"

text \<open>
  \<^verbatim>\<open>not v.strip()\<close> for a string: every character is whitespace for \<^verbatim>\<open>str.isspace\<close>
  (code points 9 to 13, 28 to 32, 133 and 160).
\<close>

definition py_isspace :: "char \<Rightarrow> bool" where
  "py_isspace c =
     (let n = (of_char c :: nat) in (9 \<le> n \<and> n \<le> 13) \<or> (28 \<le> n \<and> n \<le> 32) \<or> n = 133 \<or> n = 160)"

definition strip_empty :: "string \<Rightarrow> bool" where
  "strip_empty s = list_all py_isspace s"

section \<open>Required fields (\<^verbatim>\<open>dandi/validate.py\<close>)\<close>

text \<open>
  \<^verbatim>\<open>_check_required_fields(d, required)\<close>: the loop body for one field, then the loop.
  \<^verbatim>\<open>d.get(f, None)\<close> of a missing key is \<^verbatim>\<open>None\<close>.
\<close>

definition is_str :: "pyval \<Rightarrow> bool" where
  "is_str v = (case v of VStr _ \<Rightarrow> True | _ \<Rightarrow> False)"

definition no_value :: "pyval \<Rightarrow> bool" where
  "no_value v = (\<not> truthy v \<or> (case v of VStr s \<Rightarrow> strip_empty s | _ \<Rightarrow> False))"

definition is_placeholder :: "pyval \<Rightarrow> bool" where
  "is_placeholder v = (v = VStr ''REQUIRED'' \<or> v = VStr ''PLACEHOLDER'')"

definition field_value :: "pydict \<Rightarrow> string \<Rightarrow> pyval" where
  "field_value d f = (case dget d f of None \<Rightarrow> VNone | Some x \<Rightarrow> x)"

definition check_field :: "pydict \<Rightarrow> string \<Rightarrow> string list" where
  "check_field d f =
     (let v = field_value d f in
      (if no_value v then [''Required field '' @ repr_str f @ '' has no value''] else []) @
      (if is_placeholder v
       then [''Required field '' @ repr_str f @ '' has value '' @ py_repr v] else []))"

fun check_required_fields_loop :: "pydict \<Rightarrow> string list \<Rightarrow> string list \<Rightarrow> string list" where
  "check_required_fields_loop d [] errors = errors"
| "check_required_fields_loop d (f # required) errors =
     check_required_fields_loop d required (errors @ check_field d f)"

definition check_required_fields :: "pydict \<Rightarrow> string list \<Rightarrow> string list" where
  "check_required_fields d required = check_required_fields_loop d required []"

section \<open>Exceptions and the error ledger (\<^verbatim>\<open>dandi/cli/cmd_ls.py\<close>)\<close>

text \<open>
  A raised exception is a value: the name of its runtime type (\<^verbatim>\<open>type(exc).__name__\<close>)
  and its message (\<^verbatim>\<open>str(exc)\<close>). Only instances of \<^verbatim>\<open>Exception\<close> are modelled, the
  ones an \<^verbatim>\<open>except Exception\<close> clause catches. A function that may raise returns
  \<open>exc + 'a\<close>, with \<open>Inl\<close> for the raise.
\<close>

datatype exc = Exc (exc_type: string) (exc_msg: string)

text \<open>
  The ledger \<^verbatim>\<open>errors = defaultdict(list)\<close> maps a failure kind to the assets that
  hit it; \<^verbatim>\<open>errors[k].append(a)\<close> creates the entry when it is missing.
\<close>

type_synonym ledger = "(string \<times> pyval list) list"

definition ledger_append :: "ledger \<Rightarrow> string \<Rightarrow> pyval \<Rightarrow> ledger" where
  "ledger_append errors k a =
     dset errors k ((case dget errors k of None \<Rightarrow> [] | Some xs \<Rightarrow> xs) @ [a])"

text \<open>
  \<^verbatim>\<open>rec.get("errors", 0) + 1\<close>: integers (and booleans, which are integers) can be
  incremented; adding 1 to any other value raises \<^verbatim>\<open>TypeError\<close>.
\<close>

definition plus_one :: "pyval \<Rightarrow> exc + pyval" where
  "plus_one v =
     (case v of VInt n \<Rightarrow> Inr (VInt (n + 1))
      | VBool b \<Rightarrow> Inr (VInt ((if b then 1 else 0) + 1))
      | _ \<Rightarrow> Inl (Exc ''TypeError'' ''unsupported operand type(s) for +''))"

text \<open>
  \<^verbatim>\<open>_add_exc_error(asset, rec, errors, exc)\<close>: the ledger is appended to first, then the
  record's counter is incremented. Both objects are mutated in place in the source; the
  model returns them.
\<close>

definition add_exc_error :: "pyval \<Rightarrow> pydict \<Rightarrow> ledger \<Rightarrow> exc \<Rightarrow> (exc + pydict) \<times> ledger" where
  "add_exc_error asset rec errors e =
     (let errors' = ledger_append errors (exc_type e) asset in
      case plus_one (case dget rec ''errors'' of None \<Rightarrow> VInt 0 | Some c \<Rightarrow> c) of
        Inl e' \<Rightarrow> (Inl e', errors')
      | Inr c' \<Rightarrow> (Inr (dset rec ''errors'' c'), errors'))"

section \<open>Flattening (\<^verbatim>\<open>dandi/cli/cmd_ls.py\<close>)\<close>

text \<open>
  \<^verbatim>\<open>"%s: %s" % i\<close> for an item \<open>i = (key, value)\<close> of a dictionary: both parts go through
  \<^verbatim>\<open>str\<close>, the value as it is.
\<close>

definition item_str :: "string \<times> pyval \<Rightarrow> pyval" where
  "item_str i = VStr (fst i @ '': '' @ py_str (snd i))"

text \<open>
  \<^verbatim>\<open>flatten_v(v)\<close>. The dictionary case calls \<^verbatim>\<open>flatten_v\<close> on a freshly built list of
  strings, so the recursion is not structural; \<open>flatten_weight\<close> is its measure.
\<close>

fun flatten_weight :: "pyval \<Rightarrow> nat" where
  "flatten_weight (VList xs) = Suc (sum_list (map flatten_weight xs))"
| "flatten_weight (VTuple xs) = Suc (sum_list (map flatten_weight xs))"
| "flatten_weight (VDict kvs) = Suc (Suc 0)"
| "flatten_weight v = 0"

function flatten_v :: "pyval \<Rightarrow> pyval" where
  "flatten_v (VList xs) = VStr (join '', '' (map (\<lambda>x. py_str (flatten_v x)) xs))"
| "flatten_v (VTuple xs) = VStr (join '', '' (map (\<lambda>x. py_str (flatten_v x)) xs))"
| "flatten_v (VDict kvs) = flatten_v (VList (map item_str kvs))"
| "flatten_v VNone = VNone"
| "flatten_v (VBool b) = VBool b"
| "flatten_v (VInt i) = VInt i"
| "flatten_v (VStr s) = VStr s"
  by pat_completeness auto

lemma flatten_weight_member:
  "x \<in> set xs \<Longrightarrow> flatten_weight x \<le> sum_list (map flatten_weight xs)"
  by (induction xs) auto

termination flatten_v
  apply (relation "measure flatten_weight")
  apply (auto simp: item_str_def less_Suc_eq_le flatten_weight_member)
  done

text \<open>
  \<^verbatim>\<open>flatten_meta_to_pyout(meta)\<close>: the loop over \<^verbatim>\<open>(meta or dict()).items()\<close> with the
  accumulator \<^verbatim>\<open>out\<close>; a falsy value is skipped.
\<close>

fun flatten_meta_loop :: "pydict \<Rightarrow> pydict \<Rightarrow> pydict" where
  "flatten_meta_loop [] out = out"
| "flatten_meta_loop ((f, v) # items) out =
     (if \<not> truthy v then flatten_meta_loop items out
      else flatten_meta_loop items (dset out f (flatten_v v)))"

definition flatten_meta_to_pyout :: "pydict option \<Rightarrow> pydict" where
  "flatten_meta_to_pyout meta =
     flatten_meta_loop (case meta of None \<Rightarrow> [] | Some d \<Rightarrow> d) []"

text \<open>
  \<^verbatim>\<open>flatten_meta_to_pyout_v1(meta)\<close>, the older variant kept in the module: a nested
  dictionary is flattened recursively and each of its keys stored as
  \<^verbatim>\<open>f"{f}_{vf}"\<close>. The inner loop is \<open>promote\<close>.
\<close>

fun promote :: "string \<Rightarrow> pydict \<Rightarrow> pydict \<Rightarrow> pydict" where
  "promote f [] out = out"
| "promote f ((vf, vv) # items) out = promote f items (dset out (f @ ''_'' @ vf) (flatten_v vv))"

fun flatten_meta_v1_loop :: "pydict \<Rightarrow> pydict \<Rightarrow> pydict" where
  "flatten_meta_v1_loop [] out = out"
| "flatten_meta_v1_loop ((f, v) # items) out =
     (if \<not> truthy v then flatten_meta_v1_loop items out
      else (case v of
              VDict inner \<Rightarrow>
                flatten_meta_v1_loop items (promote f (flatten_meta_v1_loop inner []) out)
            | _ \<Rightarrow> flatten_meta_v1_loop items (dset out f (flatten_v v))))"

definition flatten_meta_to_pyout_v1 :: "pydict option \<Rightarrow> pydict" where
  "flatten_meta_to_pyout_v1 meta =
     flatten_meta_v1_loop (case meta of None \<Rightarrow> [] | Some d \<Rightarrow> d) []"

section \<open>The collector (\<^verbatim>\<open>ls\<close> and \<^verbatim>\<open>get_metadata_ls\<close> in \<^verbatim>\<open>dandi/cli/cmd_ls.py\<close>)\<close>

text \<open>
  The collaborators the collector calls are parameters: the file system
  (\<^verbatim>\<open>op.isdir\<close>, \<^verbatim>\<open>os.stat(p).st_size\<close>), the table \<^verbatim>\<open>ZARR_EXTENSIONS\<close>, and the
  extraction functions \<^verbatim>\<open>Dandiset(path, schema_version=schema).metadata\<close>,
  \<^verbatim>\<open>get_digest\<close>, \<^verbatim>\<open>nwb2asset(...).json_dict()\<close>, \<^verbatim>\<open>get_metadata\<close> and
  \<^verbatim>\<open>get_nwb_version\<close>. Each may raise. \<^verbatim>\<open>get_metadata\<close> and the dandiset metadata may
  be \<^verbatim>\<open>None\<close>.
\<close>

datatype digest = Dandi_etag string | Dandi_zarr string

record env =
  isdir :: "string \<Rightarrow> bool"
  stat_size :: "string \<Rightarrow> exc + int"
  zarr_extensions :: "string list"
  dandiset_metadata :: "string \<Rightarrow> string \<Rightarrow> exc + pydict option"
  get_digest :: "string \<Rightarrow> string \<Rightarrow> exc + string"
  nwb2asset :: "string \<Rightarrow> string \<Rightarrow> digest \<Rightarrow> exc + pydict"
  get_metadata :: "string \<Rightarrow> digest \<Rightarrow> exc + pydict option"
  get_nwb_version :: "string \<Rightarrow> exc + pyval"

text \<open>Every call of a collaborator is logged, so that call counts can be stated.\<close>

datatype call =
    CStat string
  | CDandiset string
  | CGetDigest string string
  | CNwb2asset string
  | CGetMetadata string
  | CGetNwbVersion string

text \<open>The state threaded through a run: the ledger and the call log.\<close>

record run_state =
  errors :: ledger
  calls :: "call list"

text \<open>
  \<^verbatim>\<open>get_metadata_ls\<close> returns the closure \<^verbatim>\<open>fn\<close>; the closure is the tuple of the
  arguments it captured (the ledger is shared state and is threaded instead).
\<close>

record closure =
  cl_path :: string
  cl_keys :: "string list option"
  cl_flatten :: bool
  cl_schema :: "string option"
  cl_fake :: bool

definition get_metadata_ls ::
  "string \<Rightarrow> string list option \<Rightarrow> bool \<Rightarrow> string option \<Rightarrow> bool \<Rightarrow> closure" where
  "get_metadata_ls path keys flatten schema use_fake_digest =
     \<lparr>cl_path = path, cl_keys = keys, cl_flatten = flatten, cl_schema = schema,
      cl_fake = use_fake_digest\<rparr>"

text \<open>
  The digest of lines 350-354, 362-366 and 369-373: a dummy value, or \<^verbatim>\<open>get_digest\<close>.
\<close>

definition digest_of ::
  "env \<Rightarrow> closure \<Rightarrow> string \<Rightarrow> string \<Rightarrow> call list \<Rightarrow> (exc + string) \<times> call list" where
  "digest_of E cl fake algorithm cs =
     (if cl_fake cl then (Inr (replicate 32 CHR ''0'' @ fake), cs)
      else (get_digest E (cl_path cl) algorithm, cs @ [CGetDigest (cl_path cl) algorithm]))"

text \<open>\<^verbatim>\<open>path.endswith(tuple(ZARR_EXTENSIONS))\<close>.\<close>

definition endswith :: "string \<Rightarrow> string \<Rightarrow> bool" where
  "endswith s ext = (length ext \<le> length s \<and> drop (length s - length ext) s = ext)"

definition is_zarr :: "env \<Rightarrow> string \<Rightarrow> bool" where
  "is_zarr E path = list_ex (endswith path) (zarr_extensions E)"

text \<open>
  The body of the first \<^verbatim>\<open>try\<close> of \<^verbatim>\<open>fn\<close> (lines 345-374): the value assigned to
  \<^verbatim>\<open>rec\<close>, or the exception raised on the way.
\<close>

definition fn_try_body :: "env \<Rightarrow> closure \<Rightarrow> call list \<Rightarrow> (exc + pydict option) \<times> call list" where
  "fn_try_body E cl cs =
     (let path = cl_path cl in
      case cl_schema cl of
        Some schema \<Rightarrow>
          if isdir E path then (dandiset_metadata E path schema, cs @ [CDandiset path])
          else (case digest_of E cl ''-1'' ''dandi-etag'' cs of
                  (Inl e, cs') \<Rightarrow> (Inl e, cs')
                | (Inr d, cs') \<Rightarrow>
                    (map_sum id Some (nwb2asset E path schema (Dandi_etag d)),
                     cs' @ [CNwb2asset path]))
      | None \<Rightarrow>
          if is_zarr E path
          then (case digest_of E cl ''-0--0'' ''zarr-checksum'' cs of
                  (Inl e, cs') \<Rightarrow> (Inl e, cs')
                | (Inr d, cs') \<Rightarrow>
                    (get_metadata E path (Dandi_zarr d), cs' @ [CGetMetadata path]))
          else (case digest_of E cl ''-1'' ''dandi-etag'' cs of
                  (Inl e, cs') \<Rightarrow> (Inl e, cs')
                | (Inr d, cs') \<Rightarrow>
                    (get_metadata E path (Dandi_etag d), cs' @ [CGetMetadata path])))"

text \<open>
  Lines 343-378 of \<^verbatim>\<open>fn\<close>: unless the keys are exactly \<^verbatim>\<open>["nwb_version"]\<close>, the
  extraction runs inside \<^verbatim>\<open>try\<close>; an exception goes to \<^verbatim>\<open>_add_exc_error\<close> with the
  record still \<^verbatim>\<open>{}\<close>; then the record is flattened when \<^verbatim>\<open>flatten\<close> is set.
\<close>

definition fn_extract :: "env \<Rightarrow> closure \<Rightarrow> run_state \<Rightarrow> (exc + pydict option) \<times> run_state" where
  "fn_extract E cl s =
     (if cl_keys cl = None \<or> cl_keys cl \<noteq> Some [''nwb_version'']
      then (case fn_try_body E cl (calls s) of
              (r, cs) \<Rightarrow>
                (case (case r of
                         Inr v \<Rightarrow> (Inr v, errors s)
                       | Inl e \<Rightarrow> (map_sum id Some (fst (add_exc_error (VStr (cl_path cl)) [] (errors s) e)),
                                  snd (add_exc_error (VStr (cl_path cl)) [] (errors s) e))) of
                   (Inl e', l) \<Rightarrow> (Inl e', \<lparr>errors = l, calls = cs\<rparr>)
                 | (Inr rec, l) \<Rightarrow>
                     (Inr (if cl_flatten cl then Some (flatten_meta_to_pyout rec) else rec),
                      \<lparr>errors = l, calls = cs\<rparr>)))
      else (Inr (Some []), s))"

text \<open>
  Line 379-380: \<^verbatim>\<open>rec.items()\<close> raises \<^verbatim>\<open>AttributeError\<close> when \<^verbatim>\<open>rec\<close> is
  \<^verbatim>\<open>None\<close>.
\<close>

definition fn_select :: "closure \<Rightarrow> pydict option \<Rightarrow> exc + pydict option" where
  "fn_select cl rec =
     (case cl_keys cl of
        None \<Rightarrow> Inr rec
      | Some keys \<Rightarrow>
          (case rec of
             None \<Rightarrow> Inl (Exc ''AttributeError'' ''NoneType object has no attribute items'')
           | Some d \<Rightarrow> Inr (Some (filter (\<lambda>kv. fst kv \<in> set keys) d))))"

text \<open>
  Lines 381-392: the fallback for \<^verbatim>\<open>nwb_version\<close>. The condition is evaluated left
  to right; \<^verbatim>\<open>"nwb_version" not in rec\<close> raises \<^verbatim>\<open>TypeError\<close> when \<^verbatim>\<open>rec\<close> is
  \<^verbatim>\<open>None\<close>.
\<close>

definition fn_nwb_version ::
  "env \<Rightarrow> closure \<Rightarrow> pydict option \<Rightarrow> run_state \<Rightarrow> (exc + pydict option) \<times> run_state" where
  "fn_nwb_version E cl rec s =
     (let path = cl_path cl in
      if isdir E path then (Inr rec, s)
      else (case rec of
              None \<Rightarrow> (Inl (Exc ''TypeError'' ''argument of type NoneType is not iterable''), s)
            | Some d \<Rightarrow>
                if \<not> dhas d ''nwb_version'' \<and> \<not> dhas d ''bids_schema_version'' \<and>
                   (case cl_keys cl of None \<Rightarrow> False
                    | Some keys \<Rightarrow> keys \<noteq> [] \<and> ''nwb_version'' \<in> set keys)
                then (case get_nwb_version E path of
                        Inr v \<Rightarrow>
                          (Inr (Some (dset d ''nwb_version'' v)),
                           s\<lparr>calls := calls s @ [CGetNwbVersion path]\<rparr>)
                      | Inl e \<Rightarrow>
                          (map_sum id Some (fst (add_exc_error (VStr path) d (errors s) e)),
                           \<lparr>errors = snd (add_exc_error (VStr path) d (errors s) e),
                            calls = calls s @ [CGetNwbVersion path]\<rparr>))
                else (Inr rec, s)))"

text \<open>Calling the closure: \<^verbatim>\<open>fn()\<close>.\<close>

definition call_fn :: "env \<Rightarrow> closure \<Rightarrow> run_state \<Rightarrow> (exc + pydict option) \<times> run_state" where
  "call_fn E cl s =
     (case fn_extract E cl s of
        (Inl e, s1) \<Rightarrow> (Inl e, s1)
      | (Inr rec, s1) \<Rightarrow>
          (case fn_select cl rec of
             Inl e \<Rightarrow> (Inl e, s1)
           | Inr rec' \<Rightarrow> fn_nwb_version E cl rec' s1))"

text \<open>
  The output formats after \<^verbatim>\<open>"auto"\<close> has been resolved (line 159-176), and a record
  as the sink receives it: the string-keyed entries, and for the tabular sink the one
  entry \<^verbatim>\<open>rec[async_keys] = cb\<close>, keyed by the tuple of keys and holding the closure.
\<close>

datatype fmt = Pyout | Json | Json_pp | Json_lines | Yaml

record out_rec =
  rec_fields :: pydict
  rec_async :: "(string list \<times> closure) option"

definition common_fields :: "string list" where
  "common_fields = [''path'', ''size'']"

text \<open>
  Lines 178-181. \<^verbatim>\<open>all_fields\<close> is built from tables outside this module and is a
  parameter. The source computes a set and turns it into a tuple, in the iteration order
  of the set; the model keeps the order of \<^verbatim>\<open>all_fields\<close>, without duplicates.
\<close>

definition async_keys :: "string list \<Rightarrow> string list option \<Rightarrow> string list" where
  "async_keys all_fields flds =
     filter (\<lambda>k. k \<notin> set common_fields)
       (case flds of
          None \<Rightarrow> remdups all_fields
        | Some fs \<Rightarrow> filter (\<lambda>k. k \<in> set fs) (remdups all_fields))"

text \<open>\<^verbatim>\<open>not fields\<close>: no restriction, or an empty list.\<close>

definition fields_falsy :: "string list option \<Rightarrow> bool" where
  "fields_falsy flds = (case flds of None \<Rightarrow> True | Some fs \<Rightarrow> fs = [])"

definition fields_has :: "string list option \<Rightarrow> string \<Rightarrow> bool" where
  "fields_has flds k = (case flds of None \<Rightarrow> False | Some fs \<Rightarrow> k \<in> set fs)"

text \<open>\<^verbatim>\<open>for k, v in cb_res.items(): rec[k] = v\<close>.\<close>

fun merge_items :: "pydict \<Rightarrow> pydict \<Rightarrow> pydict" where
  "merge_items [] rec = rec"
| "merge_items ((k, v) # items) rec = merge_items items (dset rec k v)"

text \<open>
  Lines 194-215 inside the \<^verbatim>\<open>try\<close>: the result is the exception that left the block
  (if any), the record as it stood at that point, and the state. A bare \<^verbatim>\<open>raise\<close> with
  no active exception raises \<^verbatim>\<open>RuntimeError\<close>.
\<close>

definition ls_try_async ::
  "env \<Rightarrow> fmt \<Rightarrow> string option \<Rightarrow> bool \<Rightarrow> string list \<Rightarrow> string \<Rightarrow> out_rec \<Rightarrow> run_state
     \<Rightarrow> exc option \<times> out_rec \<times> run_state" where
  "ls_try_async E format schema use_fake_digest akeys asset rec s =
     (if akeys \<noteq> [] then
        (let cb = get_metadata_ls asset (Some akeys) (format = Pyout) schema use_fake_digest in
         if format = Pyout then (None, rec\<lparr>rec_async := Some (akeys, cb)\<rparr>, s)
         else (case call_fn E cb s of
                 (Inl e, s') \<Rightarrow> (Some e, rec, s')
               | (Inr None, s') \<Rightarrow>
                   (Some (Exc ''RuntimeError'' ''No active exception to reraise''), rec, s')
               | (Inr (Some cb_res), s') \<Rightarrow>
                   (None, rec\<lparr>rec_fields := merge_items cb_res (rec_fields rec)\<rparr>, s')))
      else (None, rec, s))"

text \<open>Lines 187-215: the record is created with \<^verbatim>\<open>path\<close>, then the \<^verbatim>\<open>try\<close> block runs.\<close>

definition ls_try ::
  "env \<Rightarrow> string list option \<Rightarrow> fmt \<Rightarrow> string option \<Rightarrow> bool \<Rightarrow> string list \<Rightarrow> string
     \<Rightarrow> run_state \<Rightarrow> exc option \<times> out_rec \<times> run_state" where
  "ls_try E flds format schema use_fake_digest akeys asset s =
     (let rec = \<lparr>rec_fields = [(''path'', VStr asset)], rec_async = None\<rparr> in
      if (fields_falsy flds \<or> fields_has flds ''size'') \<and> \<not> isdir E asset
      then (case stat_size E asset of
              Inl e \<Rightarrow> (Some e, rec, s\<lparr>calls := calls s @ [CStat asset]\<rparr>)
            | Inr n \<Rightarrow>
                ls_try_async E format schema use_fake_digest akeys asset
                  (rec\<lparr>rec_fields := dset (rec_fields rec) ''size'' (VInt n)\<rparr>)
                  (s\<lparr>calls := calls s @ [CStat asset]\<rparr>))
      else ls_try_async E format schema use_fake_digest akeys asset rec s)"

text \<open>
  Lines 232-236: an empty record is ledgered under \<^verbatim>\<open>"Empty record"\<close> and skipped
  (\<^verbatim>\<open>continue\<close>); any other record goes to the sink.
\<close>

definition ls_emit :: "pyval \<Rightarrow> out_rec \<Rightarrow> run_state \<Rightarrow> (exc + out_rec option) \<times> run_state" where
  "ls_emit asset rec s =
     (if rec_fields rec = [] \<and> rec_async rec = None
      then (Inr None, s\<lparr>errors := ledger_append (errors s) ''Empty record'' asset\<rparr>)
      else (Inr (Some rec), s))"

text \<open>
  One iteration of the loop (lines 186-236). An asset is a string (a path), a
  dictionary (a ready record) or, for anything else, a \<^verbatim>\<open>TypeError\<close>. The result is
  the record handed to the sink, \<open>None\<close> when the iteration ended with \<^verbatim>\<open>continue\<close>, or
  the exception that leaves the loop.
\<close>

definition ls_asset ::
  "env \<Rightarrow> string list option \<Rightarrow> fmt \<Rightarrow> string option \<Rightarrow> bool \<Rightarrow> string list \<Rightarrow> pyval
     \<Rightarrow> run_state \<Rightarrow> (exc + out_rec option) \<times> run_state" where
  "ls_asset E flds format schema use_fake_digest akeys asset s =
     (case asset of
        VStr path \<Rightarrow>
          (case ls_try E flds format schema use_fake_digest akeys path s of
             (None, rec, s') \<Rightarrow> ls_emit asset rec s'
           | (Some e, rec, s') \<Rightarrow>
               (case add_exc_error asset (rec_fields rec) (errors s') e of
                  (Inl e', l) \<Rightarrow> (Inl e', s'\<lparr>errors := l\<rparr>)
                | (Inr d, l) \<Rightarrow> ls_emit asset (rec\<lparr>rec_fields := d\<rparr>) (s'\<lparr>errors := l\<rparr>)))
      | VDict d \<Rightarrow>
          (if (case schema of None \<Rightarrow> False
               | Some v \<Rightarrow> field_value d ''schemaVersion'' \<noteq> VStr v)
           then (Inl (Exc ''NotImplementedError''
                   (''Record conversion between schema versions is not implemented.  Found schemaVersion=''
                    @ py_str (field_value d ''schemaVersion'') @ '' where '' @ the schema
                    @ '' was requested'')), s)
           else ls_emit asset \<lparr>rec_fields = d, rec_async = None\<rparr> s)
      | _ \<Rightarrow> (Inl (Exc ''TypeError'' (py_str asset)), s))"

text \<open>
  The loop over the assets, with the records handed to the sink so far. An exception
  that leaves an iteration ends the loop.
\<close>

fun ls_loop ::
  "env \<Rightarrow> string list option \<Rightarrow> fmt \<Rightarrow> string option \<Rightarrow> bool \<Rightarrow> string list \<Rightarrow> pyval list
     \<Rightarrow> run_state \<Rightarrow> out_rec list \<Rightarrow> exc option \<times> out_rec list \<times> run_state" where
  "ls_loop E flds format schema use_fake_digest akeys [] s out = (None, out, s)"
| "ls_loop E flds format schema use_fake_digest akeys (asset # assets) s out =
     (case ls_asset E flds format schema use_fake_digest akeys asset s of
        (Inl e, s') \<Rightarrow> (Some e, out, s')
      | (Inr None, s') \<Rightarrow> ls_loop E flds format schema use_fake_digest akeys assets s' out
      | (Inr (Some rec), s') \<Rightarrow>
          ls_loop E flds format schema use_fake_digest akeys assets s' (out @ [rec]))"

text \<open>The end-of-run warning (lines 237-241), when the ledger is not empty.\<close>

definition summary :: "ledger \<Rightarrow> string option" where
  "summary l =
     (if l = [] then None
      else Some (''Failed to operate on some paths (empty records were listed):'' @ [CHR 0x0A] @ '' '' @
                 join ([CHR 0x0A] @ '' '')
                   (map (\<lambda>kv. fst kv @ '': '' @ str_int (int (length (snd kv))) @ '' paths'') l)))"

text \<open>
  \<^verbatim>\<open>ls\<close> from line 159 on: \<^verbatim>\<open>fields\<close> has been split, mapped and checked against
  \<^verbatim>\<open>all_fields\<close>, the assets have been enumerated by \<^verbatim>\<open>assets_gen()\<close>. For the tabular
  format \<^verbatim>\<open>path\<close> is put in front of the fields (lines 163-165).
\<close>

record ls_result =
  raised :: "exc option"
  emitted :: "out_rec list"
  final :: run_state
  warning :: "string option"

definition pyout_fields :: "fmt \<Rightarrow> string list option \<Rightarrow> string list option" where
  "pyout_fields format flds =
     (if format = Pyout
      then (case flds of
              Some (f # fs) \<Rightarrow> if f \<noteq> ''path'' then Some (''path'' # f # fs) else flds
            | _ \<Rightarrow> flds)
      else flds)"

definition ls ::
  "env \<Rightarrow> string list \<Rightarrow> string list option \<Rightarrow> fmt \<Rightarrow> string option \<Rightarrow> bool \<Rightarrow> pyval list
     \<Rightarrow> ls_result" where
  "ls E all_fields flds format schema use_fake_digest assets =
     (let flds' = pyout_fields format flds;
          akeys = async_keys all_fields flds'
      in case ls_loop E flds' format schema use_fake_digest akeys assets
                \<lparr>errors = [], calls = []\<rparr> [] of
           (r, out, s) \<Rightarrow>
             \<lparr>raised = r, emitted = out, final = s,
              warning = (if r = None then summary (errors s) else None)\<rparr>)"

section \<open>Validation (\<^verbatim>\<open>dandi/validate.py\<close>)\<close>

text \<open>
  The collaborators of the validators are parameters: the constants
  \<^verbatim>\<open>dandiset_metadata_file\<close> and \<^verbatim>\<open>VIDEO_FILE_EXTENSIONS\<close>, the supported version
  \<^verbatim>\<open>get_schema_version()\<close>, reading and parsing a YAML file, the models
  \<^verbatim>\<open>DandisetMeta(**meta)\<close> and \<^verbatim>\<open>BareAsset(**asset.dict())\<close>,
  \<^verbatim>\<open>get_asset_metadata\<close>, \<^verbatim>\<open>get_metadata(filepath)\<close>, \<^verbatim>\<open>pynwb_validate\<close> and the
  video library. An exception of type \<^verbatim>\<open>ValidationError\<close> is one whose type name is
  \<^verbatim>\<open>ValidationError\<close>.
\<close>

record venv =
  dandiset_metadata_file :: string
  video_file_extensions :: "string list"
  get_schema_version :: string
  load_yaml :: "string \<Rightarrow> exc + pyval"
  dandiset_meta_model :: "pyval \<Rightarrow> exc + unit"
  get_asset_metadata :: "string \<Rightarrow> exc + pydict"
  bare_asset_model :: "pydict \<Rightarrow> exc + unit"
  get_metadata_file :: "string \<Rightarrow> exc + pydict option"
  pynwb_validate :: "string \<Rightarrow> bool \<Rightarrow> exc + string list"
  cv2_installed :: bool
  video_open :: "string \<Rightarrow> exc + bool"
  video_read :: "string \<Rightarrow> exc + bool"

text \<open>
  A validator returns its problem list or raises, and it logs; the messages it logged
  (\<^verbatim>\<open>lgr.warning\<close>, \<^verbatim>\<open>lgr.error\<close>) are the second component of its result.
\<close>

datatype log_entry = Warning string | Error string

type_synonym vresult = "(exc + string list) \<times> log_entry list"

definition required_dandiset_metadata_fields :: "string list" where
  "required_dandiset_metadata_fields = [''identifier'', ''name'', ''description'']"

definition required_nwb_metadata_fields :: "string list" where
  "required_nwb_metadata_fields = [''subject_id'']"

text \<open>\<^verbatim>\<open>op.basename\<close> and \<^verbatim>\<open>os.path.splitext(p)[-1]\<close> for POSIX paths.\<close>

definition basename :: "string \<Rightarrow> string" where
  "basename p = rev (takeWhile (\<lambda>c. c \<noteq> CHR ''/'') (rev p))"

definition splitext_ext :: "string \<Rightarrow> string" where
  "splitext_ext p =
     (let b = basename p;
          e = rev (takeWhile (\<lambda>c. c \<noteq> CHR ''.'') (rev b));
          stem = take (length b - length e - 1) b
      in if CHR ''.'' \<notin> set b \<or> list_all (\<lambda>c. c = CHR ''.'') stem then [] else CHR ''.'' # e)"

definition unsupported_version :: "pyval \<Rightarrow> string \<Rightarrow> exc" where
  "unsupported_version schema_version current_version =
     Exc ''ValueError'' (''Unsupported schema version: '' @ py_str schema_version
                         @ ''; expected '' @ current_version)"

definition attribute_error :: exc where
  "attribute_error = Exc ''AttributeError'' ''object has no attribute get''"

text \<open>
  The two \<^verbatim>\<open>except\<close> clauses that follow a model validation (lines 109-125 and
  152-168): re-raise in strict mode, otherwise log a warning and return one problem.
\<close>

definition model_failure :: "string \<Rightarrow> string \<Rightarrow> bool \<Rightarrow> exc \<Rightarrow> vresult" where
  "model_failure prefix filepath devel_debug e =
     (if devel_debug then (Inl e, [])
      else if exc_type e = ''ValidationError''
      then (Inr [exc_msg e],
            [Warning (''Validation error for '' @ filepath @ '': '' @ exc_msg e)])
      else (Inr [prefix @ exc_msg e],
            [Warning (''Unexpected validation error for '' @ filepath @ '': '' @ exc_msg e)]))"

text \<open>
  \<^verbatim>\<open>validate_dandiset_yaml\<close> (the decorated function's body). \<^verbatim>\<open>meta.get\<close> raises
  \<^verbatim>\<open>AttributeError\<close> when the YAML document is not a mapping.
\<close>

definition validate_dandiset_yaml :: "venv \<Rightarrow> string \<Rightarrow> string option \<Rightarrow> bool \<Rightarrow> vresult" where
  "validate_dandiset_yaml V filepath schema_version devel_debug =
     (case load_yaml V filepath of
        Inl e \<Rightarrow> (Inl e, [])
      | Inr meta \<Rightarrow>
          (case (case schema_version of
                   Some v \<Rightarrow> Inr (VStr v)
                 | None \<Rightarrow> (case meta of
                               VDict d \<Rightarrow> Inr (field_value d ''schemaVersion'')
                             | _ \<Rightarrow> Inl attribute_error)) of
             Inl e \<Rightarrow> (Inl e, [])
           | Inr sv \<Rightarrow>
               if sv = VNone
               then (case meta of
                       VDict d \<Rightarrow>
                         (Inr (check_required_fields d required_dandiset_metadata_fields), [])
                     | _ \<Rightarrow> (Inl attribute_error, []))
               else if sv \<noteq> VStr (get_schema_version V)
               then (Inl (unsupported_version sv (get_schema_version V)), [])
               else (case dandiset_meta_model V meta of
                       Inr _ \<Rightarrow> (Inr [], [])
                     | Inl e \<Rightarrow>
                         model_failure ''Failed to initialize Dandiset meta: '' filepath
                           devel_debug e)))"

text \<open>\<^verbatim>\<open>validate_asset_file\<close> (the decorated function's body).\<close>

definition validate_asset_file :: "venv \<Rightarrow> string \<Rightarrow> string option \<Rightarrow> bool \<Rightarrow> vresult" where
  "validate_asset_file V filepath schema_version devel_debug =
     (case schema_version of
        Some v \<Rightarrow>
          if v \<noteq> get_schema_version V
          then (Inl (unsupported_version (VStr v) (get_schema_version V)), [])
          else (case get_asset_metadata V filepath of
                  Inl e \<Rightarrow> model_failure ''Failed to read metadata: '' filepath devel_debug e
                | Inr asset \<Rightarrow>
                    (case bare_asset_model V asset of
                       Inl e \<Rightarrow> model_failure ''Failed to read metadata: '' filepath devel_debug e
                     | Inr _ \<Rightarrow> (Inr [], [])))
      | None \<Rightarrow>
          (case get_metadata_file V filepath of
             Inl e \<Rightarrow>
               if devel_debug then (Inl e, [])
               else (Inr [''Failed to read metadata: '' @ exc_msg e],
                     [Warning (''Failed to read metadata in '' @ filepath @ '': '' @ exc_msg e)])
           | Inr None \<Rightarrow> (Inl attribute_error, [])
           | Inr (Some meta) \<Rightarrow>
               (Inr (check_required_fields meta required_nwb_metadata_fields), [])))"

text \<open>\<^verbatim>\<open>validate_movie_file\<close>.\<close>

definition validate_movie_file :: "venv \<Rightarrow> string \<Rightarrow> bool \<Rightarrow> vresult" where
  "validate_movie_file V filepath devel_debug =
     (if \<not> cv2_installed V
      then (Inl (Exc ''Exception''
                  (''do '' @ [CHR 0x27] @ ''pip install opencv-python'' @ [CHR 0x27]
                   @ '' to validate assisting video files'')),
            [Error ''could not validate video file as opencv is not installed''])
      else
        (let msg = ''file ext must be one of supported types: '' @ filepath;
             bad_ext = (splitext_ext filepath \<notin> set (video_file_extensions V)) in
         if bad_ext \<and> devel_debug then (Inl (Exc ''Exception'' msg), [])
         else
           (let log = (if bad_ext then [Warning msg] else []);
                msg2 = ''could not open video file '' @ filepath @ '' to validate'' in
            case video_open V filepath of
              Inl e \<Rightarrow>
                if devel_debug then (Inl e, log)
                else (Inr [exc_msg e],
                      log @ [Warning (''validation error '' @ exc_msg e @ '' for '' @ filepath)])
            | Inr False \<Rightarrow>
                if devel_debug then (Inl (Exc ''Exception'' msg2), log)
                else (Inr [msg2], log @ [Warning msg2])
            | Inr True \<Rightarrow>
                (case video_read V filepath of
                   Inl e \<Rightarrow> (Inl e, log)
                 | Inr success \<Rightarrow>
                     if success then (Inr [], log)
                     else (Inr [''no frames in video file '' @ filepath], log)))))"

text \<open>
  \<^verbatim>\<open>validate_file\<close>. The descriptor branch passes \<^verbatim>\<open>schema_version=None\<close>. In the last
  branch \<^verbatim>\<open>pynwb_validate\<close> runs first and the two lists are concatenated.

  In the source \<^verbatim>\<open>validate_dandiset_yaml\<close> and \<^verbatim>\<open>validate_asset_file\<close> are decorated
  with \<^verbatim>\<open>validate_cache.memoize_path\<close>, which is defined outside this module; the
  model calls their bodies. That is what the decorated function does whenever the
  result for the file and the arguments is not in the cache. On a repeated call for an
  unmodified file the decorated function returns the cached result without running the
  body, hence without logging again: the results of the model and of the source agree,
  and the log of the model is the log of a run in which every call runs the body.
\<close>

definition validate_file :: "venv \<Rightarrow> string \<Rightarrow> string option \<Rightarrow> bool \<Rightarrow> vresult" where
  "validate_file V filepath schema_version devel_debug =
     (if basename filepath = dandiset_metadata_file V
      then validate_dandiset_yaml V filepath None devel_debug
      else if splitext_ext filepath \<in> set (video_file_extensions V)
      then validate_movie_file V filepath devel_debug
      else (case pynwb_validate V filepath devel_debug of
              Inl e \<Rightarrow> (Inl e, [])
            | Inr errs \<Rightarrow>
                (case validate_asset_file V filepath schema_version devel_debug of
                   (Inl e, log) \<Rightarrow> (Inl e, log)
                 | (Inr errs', log) \<Rightarrow> (Inr (errs @ errs'), log))))"

text \<open>
  The generator \<^verbatim>\<open>validate\<close>, over the files that \<^verbatim>\<open>find_files\<close> or
  \<^verbatim>\<open>find_dandi_files\<close> discovered. \<open>validate_next\<close> is one \<^verbatim>\<open>next()\<close> on the generator:
  \<open>None\<close> when it is exhausted, otherwise the pair it yields or the exception it raises,
  with the files that remain. \<open>validate\<close> drains it: the pairs yielded, the exception
  that ended the iteration (if any), and all the messages logged.
\<close>

definition validate_next ::
  "venv \<Rightarrow> string option \<Rightarrow> bool \<Rightarrow> string list
     \<Rightarrow> ((exc + string \<times> string list) \<times> log_entry list \<times> string list) option" where
  "validate_next V schema_version devel_debug filepaths =
     (case filepaths of
        [] \<Rightarrow> None
      | path # rest \<Rightarrow>
          (case validate_file V path schema_version devel_debug of
             (Inl e, log) \<Rightarrow> Some (Inl e, log, rest)
           | (Inr errs, log) \<Rightarrow> Some (Inr (path, errs), log, rest)))"

fun validate ::
  "venv \<Rightarrow> string option \<Rightarrow> bool \<Rightarrow> string list
     \<Rightarrow> (string \<times> string list) list \<times> exc option \<times> log_entry list" where
  "validate V schema_version devel_debug [] = ([], None, [])"
| "validate V schema_version devel_debug (path # rest) =
     (case validate_file V path schema_version devel_debug of
        (Inl e, log) \<Rightarrow> ([], Some e, log)
      | (Inr errs, log) \<Rightarrow>
          (case validate V schema_version devel_debug rest of
             (ys, r, log') \<Rightarrow> ((path, errs) # ys, r, log @ log')))"

section \<open>The validation cache\<close>



section \<open>Concrete environments\<close>

text \<open>
  Two environments on which the model is evaluated. In \<open>example_env\<close> the path
  \<^verbatim>\<open>dir\<close> is a directory, \<^verbatim>\<open>missing.nwb\<close> does not exist, \<^verbatim>\<open>corrupt.nwb\<close> is a file
  whose metadata cannot be extracted, and every other path is an empty file with
  metadata.
\<close>

definition example_env :: env where
  "example_env =
     \<lparr>isdir = (\<lambda>p. p = ''dir''),
      stat_size = (\<lambda>p. if p = ''missing.nwb''
                         then Inl (Exc ''FileNotFoundError'' ''No such file or directory'')
                         else Inr 0),
      zarr_extensions = [''.zarr'', ''.ngff''],
      dandiset_metadata = (\<lambda>p v. Inr None),
      get_digest = (\<lambda>p a. Inr ''abc-1''),
      nwb2asset = (\<lambda>p v d. Inr [(''path'', VStr p), (''schemaVersion'', VStr v)]),
      get_metadata = (\<lambda>p d. if p = ''corrupt.nwb''
                            then Inl (Exc ''ValueError'' ''not an NWB file'')
                            else Inr (Some [(''age'', VStr ''P30D''),
                                            (''subject'', VDict [(''age'', VInt 3)]),
                                            (''nwb_version'', VStr ''2.5.0'')])),
      get_nwb_version = (\<lambda>p. Inr (VStr ''2.5.0''))\<rparr>"

definition example_all_fields :: "string list" where
  "example_all_fields = [''age'', ''nwb_version'', ''path'', ''size'', ''subject'']"

text \<open>
  In \<open>example_venv\<close> the supported schema version is \<^verbatim>\<open>0.6.0\<close>; the descriptor
  \<^verbatim>\<open>ds/dandiset.yaml\<close> declares no \<^verbatim>\<open>schemaVersion\<close>, \<^verbatim>\<open>old/dandiset.yaml\<close> declares
  \<^verbatim>\<open>0.3.0\<close>, and any other descriptor cannot be read; \<^verbatim>\<open>bad.nwb\<close> is an asset whose
  metadata cannot be extracted.
\<close>

definition example_venv :: venv where
  "example_venv =
     \<lparr>dandiset_metadata_file = ''dandiset.yaml'',
      video_file_extensions = [''.mp4'', ''.avi''],
      get_schema_version = ''0.6.0'',
      load_yaml = (\<lambda>p. if p = ''ds/dandiset.yaml''
                         then Inr (VDict [(''identifier'', VStr ''000001''),
                                          (''name'', VStr ''A dataset''),
                                          (''description'', VStr ''Some data'')])
                         else if p = ''old/dandiset.yaml''
                         then Inr (VDict [(''identifier'', VStr ''000002''),
                                          (''schemaVersion'', VStr ''0.3.0'')])
                         else Inl (Exc ''FileNotFoundError'' ''No such file or directory'')),
      dandiset_meta_model = (\<lambda>meta. Inr ()),
      get_asset_metadata = (\<lambda>p. if p = ''bad.nwb''
                                  then Inl (Exc ''OSError'' ''cannot read'')
                                  else Inr [(''path'', VStr p)]),
      bare_asset_model = (\<lambda>asset. Inr ()),
      get_metadata_file = (\<lambda>p. if p = ''bad.nwb''
                                 then Inl (Exc ''OSError'' ''cannot read'')
                                 else Inr (Some [(''subject_id'', VStr ''mouse1'')])),
      pynwb_validate = (\<lambda>p devel_debug. Inr []),
      cv2_installed = True,
      video_open = (\<lambda>p. Inr True),
      video_read = (\<lambda>p. Inr True)\<rparr>"

text \<open>
  \<open>broken_venv\<close> is \<open>example_venv\<close> with one more descriptor,
  \<^verbatim>\<open>broken/dandiset.yaml\<close>, a file that exists and is not valid YAML: loading it raises.
\<close>

definition broken_venv :: venv where
  "broken_venv =
     example_venv\<lparr>load_yaml :=
       (\<lambda>p. if p = ''broken/dandiset.yaml''
            then Inl (Exc ''ScannerError'' ''mapping values are not allowed here'')
            else load_yaml example_venv p)\<rparr>"

section \<open>Properties of the required-field check\<close>

lemma check_required_fields_loop_concat:
  "check_required_fields_loop d required errs = errs @ concat (map (check_field d) required)"
  by (induction required arbitrary: errs) auto

lemma no_value_not_placeholder: "no_value v \<Longrightarrow> \<not> is_placeholder v"
  by (auto simp: no_value_def is_placeholder_def strip_empty_def py_isspace_def)

text \<open>
  Claim C8. \<^verbatim>\<open>_check_required_fields\<close> returns, in the order of the required list, one
  problem string for each listed field that violates the check and none for the others:
  a field whose value is missing, falsy or a whitespace-only string gives the one string
  saying that the field has no value; a field whose value is \<^verbatim>\<open>"REQUIRED"\<close> or
  \<^verbatim>\<open>"PLACEHOLDER"\<close> gives the one string naming the field and the value; the two
  conditions exclude each other, so the two \<^verbatim>\<open>if\<close> statements of the loop body never
  both fire; and the two wordings differ.
\<close>

theorem check_required_fields_one_problem_per_violation:
  "check_required_fields d required = concat (map (check_field d) required)
   \<and> (\<forall>f. check_field d f =
         (if no_value (field_value d f)
          then [''Required field '' @ repr_str f @ '' has no value'']
          else if is_placeholder (field_value d f)
          then [''Required field '' @ repr_str f @ '' has value '' @ py_repr (field_value d f)]
          else []))
   \<and> (\<forall>f v. ''Required field '' @ repr_str f @ '' has no value''
          \<noteq> ''Required field '' @ repr_str f @ '' has value '' @ py_repr v)"
  using no_value_not_placeholder
  by (auto simp: check_required_fields_def check_required_fields_loop_concat check_field_def Let_def)

theorem check_required_fields_witness:
  "check_required_fields
     [(''identifier'', VStr ''REQUIRED''), (''name'', VStr ''  ''), (''description'', VStr ''ok'')]
     [''identifier'', ''name'', ''description'', ''license'']
   = [''Required field '' @ [CHR 0x27] @ ''identifier'' @ [CHR 0x27] @ '' has value ''
        @ [CHR 0x27] @ ''REQUIRED'' @ [CHR 0x27],
      ''Required field '' @ [CHR 0x27] @ ''name'' @ [CHR 0x27] @ '' has no value'',
      ''Required field '' @ [CHR 0x27] @ ''license'' @ [CHR 0x27] @ '' has no value'']"
  using check_required_fields_one_problem_per_violation
    [of "[(''identifier'', VStr ''REQUIRED''), (''name'', VStr ''  ''), (''description'', VStr ''ok'')]"
        "[''identifier'', ''name'', ''description'', ''license'']"]
  by (simp add: field_value_def dget_def no_value_def is_placeholder_def strip_empty_def
      py_isspace_def repr_str_def repr_char_def Let_def)

section \<open>Properties of the flattening\<close>

lemma dset_fresh: "k \<notin> fst ` set d \<Longrightarrow> dset d k v = d @ [(k, v)]"
  by (induction d) auto

lemma flatten_meta_loop_distinct:
  "distinct (map fst items) \<Longrightarrow> fst ` set items \<inter> fst ` set out = {} \<Longrightarrow>
   flatten_meta_loop items out =
     out @ map (\<lambda>kv. (fst kv, flatten_v (snd kv))) (filter (\<lambda>kv. truthy (snd kv)) items)"
proof (induction items out rule: flatten_meta_loop.induct)
  case (1 out)
  then show ?case by simp
next
  case (2 f v items out)
  show ?case
  proof (cases "truthy v")
    case False
    with 2 show ?thesis by auto
  next
    case True
    have fresh: "f \<notin> fst ` set out" using 2(4) by auto
    have disj: "fst ` set items \<inter> fst ` set (dset out f (flatten_v v)) = {}"
      using 2(3,4) by (auto simp: dset_fresh[OF fresh])
    show ?thesis
      using 2(2)[OF _ _ disj] True 2(3) by (simp add: dset_fresh[OF fresh])
  qed
qed

lemma flatten_meta_to_pyout_distinct:
  "distinct (map fst meta) \<Longrightarrow>
   flatten_meta_to_pyout (Some meta) =
     map (\<lambda>kv. (fst kv, flatten_v (snd kv))) (filter (\<lambda>kv. truthy (snd kv)) meta)"
  using flatten_meta_loop_distinct[of meta "[]"] by (simp add: flatten_meta_to_pyout_def)

lemma flatten_v_dict:
  "flatten_v (VDict kvs) = VStr (join '', '' (map (\<lambda>kv. fst kv @ '': '' @ py_str (snd kv)) kvs))"
  by (simp add: item_str_def py_str_def comp_def)

text \<open>
  Claim C6. \<^verbatim>\<open>flatten_v\<close> of a list or tuple flattens each element, stringifies it and
  joins the strings with \<^verbatim>\<open>", "\<close>; of a dictionary it flattens the list of the
  \<^verbatim>\<open>"key: value"\<close> strings of its items; a scalar is returned unchanged;
  \<^verbatim>\<open>["a", "b"]\<close> gives \<^verbatim>\<open>"a, b"\<close> and \<^verbatim>\<open>{"x": 1, "y": 2}\<close> gives \<^verbatim>\<open>"x: 1, y: 2"\<close>. For a
  record (a dictionary, so with distinct keys) \<^verbatim>\<open>flatten_meta_to_pyout\<close> keeps exactly
  the entries with a truthy value, in order, each flattened; the key of a falsy value is
  absent from the output.
\<close>

theorem flatten_v_cases_and_falsy_elision:
  assumes "distinct (map fst meta)"
  shows "flatten_v (VList xs) = VStr (join '', '' (map (\<lambda>x. py_str (flatten_v x)) xs))
   \<and> flatten_v (VTuple xs) = VStr (join '', '' (map (\<lambda>x. py_str (flatten_v x)) xs))
   \<and> flatten_v (VDict kvs) = flatten_v (VList (map item_str kvs))
   \<and> flatten_v (VList [VStr ''a'', VStr ''b'']) = VStr ''a, b''
   \<and> flatten_v (VDict [(''x'', VInt 1), (''y'', VInt 2)]) = VStr ''x: 1, y: 2''
   \<and> flatten_v VNone = VNone \<and> flatten_v (VBool b) = VBool b
   \<and> flatten_v (VInt i) = VInt i \<and> flatten_v (VStr s) = VStr s
   \<and> flatten_meta_to_pyout (Some meta) =
       map (\<lambda>kv. (fst kv, flatten_v (snd kv))) (filter (\<lambda>kv. truthy (snd kv)) meta)
   \<and> (\<forall>k v. (k, v) \<in> set meta \<and> \<not> truthy v \<longrightarrow> \<not> dhas (flatten_meta_to_pyout (Some meta)) k)"
proof -
  have rec: "flatten_meta_to_pyout (Some meta) =
       map (\<lambda>kv. (fst kv, flatten_v (snd kv))) (filter (\<lambda>kv. truthy (snd kv)) meta)"
    by (rule flatten_meta_to_pyout_distinct[OF assms])
  have drop: "\<not> dhas (flatten_meta_to_pyout (Some meta)) k" if "(k, v) \<in> set meta" "\<not> truthy v" for k v
  proof
    assume "dhas (flatten_meta_to_pyout (Some meta)) k"
    then obtain v' where "(k, v') \<in> set meta" "truthy v'"
      by (auto simp: rec dhas_def)
    with that assms show False by (metis eq_key_imp_eq_value)
  qed
  have ex1: "flatten_v (VList [VStr ''a'', VStr ''b'']) = VStr ''a, b''"
    by (simp add: py_str_def)
  have ex2: "flatten_v (VDict [(''x'', VInt 1), (''y'', VInt 2)]) = VStr ''x: 1, y: 2''"
    by (simp add: py_str_def item_str_def str_int_def str_nat.simps)
  have drop': "\<forall>k v. (k, v) \<in> set meta \<and> \<not> truthy v \<longrightarrow> \<not> dhas (flatten_meta_to_pyout (Some meta)) k"
    using drop by blast
  from rec drop' ex1 ex2 show ?thesis
    by (intro conjI; (assumption | simp))
qed

theorem flatten_v_cases_and_falsy_elision_witness:
  "distinct (map fst [(''a'', VStr []), (''b'', VList [VStr ''x'', VInt 2]), (''c'', VDict []),
                      (''d'', VInt 0), (''e'', VNone), (''f'', VDict [(''k'', VInt 1)]),
                      (''g'', VList [])])
   \<and> flatten_meta_to_pyout
       (Some [(''a'', VStr []), (''b'', VList [VStr ''x'', VInt 2]), (''c'', VDict []),
              (''d'', VInt 0), (''e'', VNone), (''f'', VDict [(''k'', VInt 1)]),
              (''g'', VList [])])
     = [(''b'', VStr ''x, 2''), (''f'', VStr ''k: 1'')]"
  using flatten_v_cases_and_falsy_elision
    [of "[(''a'', VStr []), (''b'', VList [VStr ''x'', VInt 2]), (''c'', VDict []),
          (''d'', VInt 0), (''e'', VNone), (''f'', VDict [(''k'', VInt 1)]),
          (''g'', VList [])]"]
  by (simp add: py_str_def item_str_def str_int_def str_nat.simps)

lemma dset_keys: "fst ` set (dset d k v) = insert k (fst ` set d)"
  by (induction d k v rule: dset.induct) (simp_all add: insert_commute)

lemma promote_keys:
  "fst ` set (promote f items out) = fst ` set out \<union> (\<lambda>vf. f @ ''_'' @ vf) ` fst ` set items"
proof (induction items arbitrary: out)
  case Nil
  then show ?case by simp
next
  case (Cons kv items)
  obtain vf vv where kv: "kv = (vf, vv)" by (cases kv)
  show ?case
    unfolding kv promote.simps Cons.IH dset_keys by auto
qed

lemma flatten_meta_v1_loop_keys_mono:
  "fst ` set out \<subseteq> fst ` set (flatten_meta_v1_loop items out)"
proof (induction items arbitrary: out)
  case Nil
  then show ?case by simp
next
  case (Cons kv items)
  obtain f v where kv: "kv = (f, v)" by (cases kv)
  show ?case
  proof (cases "truthy v")
    case False
    then show ?thesis using Cons[of out] by (simp add: kv)
  next
    case True
    show ?thesis
    proof (cases v)
      case (VDict inner)
      have "fst ` set out \<subseteq> fst ` set (promote f (flatten_meta_v1_loop inner []) out)"
        by (simp add: promote_keys)
      also have "\<dots> \<subseteq> fst ` set (flatten_meta_v1_loop items (promote f (flatten_meta_v1_loop inner []) out))"
        by (rule Cons)
      finally show ?thesis using True by (simp add: kv VDict)
    qed (use True Cons[of "dset out f (flatten_v v)"] in \<open>auto simp: kv dset_keys\<close>)
  qed
qed

lemma flatten_meta_v1_loop_promotes:
  "(f, VDict inner) \<in> set items \<Longrightarrow> inner \<noteq> [] \<Longrightarrow>
   (\<lambda>vf. f @ ''_'' @ vf) ` fst ` set (flatten_meta_v1_loop inner [])
     \<subseteq> fst ` set (flatten_meta_v1_loop items out)"
proof (induction items arbitrary: out)
  case Nil
  then show ?case by simp
next
  case (Cons kv items)
  obtain g v where kv: "kv = (g, v)" by (cases kv)
  show ?case
  proof (cases "(f, VDict inner) = kv")
    case True
    then have gv: "g = f" "v = VDict inner" by (simp_all add: kv)
    have "(\<lambda>vf. f @ ''_'' @ vf) ` fst ` set (flatten_meta_v1_loop inner [])
            \<subseteq> fst ` set (promote f (flatten_meta_v1_loop inner []) out)"
      by (simp add: promote_keys)
    also have "\<dots> \<subseteq> fst ` set (flatten_meta_v1_loop items (promote f (flatten_meta_v1_loop inner []) out))"
      by (rule flatten_meta_v1_loop_keys_mono)
    finally show ?thesis using Cons.prems(2) by (simp add: kv gv)
  next
    case False
    then have mem: "(f, VDict inner) \<in> set items" using Cons.prems(1) by auto
    note IH = Cons.IH[OF mem Cons.prems(2)]
    show ?thesis
    proof (cases "truthy v")
      case False
      then show ?thesis using IH[of out] by (simp add: kv)
    next
      case True
      then show ?thesis using IH by (cases v) (simp_all add: kv)
    qed
  qed
qed

lemma flatten_meta_to_pyout_dict_entry:
  assumes "distinct (map fst meta)" "(f, VDict inner) \<in> set meta" "inner \<noteq> []"
  shows "dget (flatten_meta_to_pyout (Some meta)) f = Some (flatten_v (VDict inner))"
proof -
  let ?out = "map (\<lambda>kv. (fst kv, flatten_v (snd kv))) (filter (\<lambda>kv. truthy (snd kv)) meta)"
  have "distinct (map fst ?out)"
    using assms(1) by (simp add: comp_def distinct_map_filter)
  moreover have "(f, flatten_v (VDict inner)) \<in> set ?out"
    using assms(2,3) by force
  ultimately have "map_of ?out f = Some (flatten_v (VDict inner))"
    by (rule map_of_is_SomeI)
  then show ?thesis
    by (simp add: flatten_meta_to_pyout_distinct[OF assms(1)] dget_def)
qed

text \<open>
  Claim C7, as stated, fails: the flattening that \<^verbatim>\<open>get_metadata_ls\<close> applies for the
  tabular sink is \<^verbatim>\<open>flatten_meta_to_pyout\<close>, which leaves a nested mapping under its
  outer key as one joined string. For the record \<^verbatim>\<open>{"subject": {"age": 3}}\<close> the result
  is \<^verbatim>\<open>{"subject": "age: 3"}\<close>, and the callback of the collector returns no key
  \<^verbatim>\<open>subject_age\<close> even when that key is among the requested ones.
\<close>

theorem flatten_meta_to_pyout_no_promotion:
  "flatten_meta_to_pyout (Some [(''subject'', VDict [(''age'', VInt 3)])])
     = [(''subject'', VStr ''age: 3'')]
   \<and> fst (call_fn example_env
            (get_metadata_ls ''a.nwb'' (Some [''age'', ''subject'', ''subject_age'']) True None False)
            \<lparr>errors = [], calls = []\<rparr>)
     = Inr (Some [(''age'', VStr ''P30D''), (''subject'', VStr ''age: 3'')])"
  by (simp add: flatten_meta_to_pyout_def item_str_def py_str_def str_int_def str_nat.simps
      call_fn_def get_metadata_ls_def fn_extract_def fn_try_body_def digest_of_def is_zarr_def
      endswith_def example_env_def fn_select_def fn_nwb_version_def dhas_def Let_def)

text \<open>
  Claim C7, amended. For the tabular sink the callback flattens the extracted record
  with \<^verbatim>\<open>flatten_meta_to_pyout\<close>: a top-level entry whose value is a non-empty nested
  mapping stays under its outer key, collapsed into the single string of its
  \<^verbatim>\<open>"key: value"\<close> items joined with \<^verbatim>\<open>", "\<close>, and the flattened record has no key that
  the record did not have. Promotion of the inner keys to \<^verbatim>\<open>"<outer>_<inner>"\<close> is what
  \<^verbatim>\<open>flatten_meta_to_pyout_v1\<close> does, which the collector does not call.
\<close>

theorem flatten_meta_to_pyout_collapses_nested_mapping:
  assumes "distinct (map fst meta)" "(f, VDict inner) \<in> set meta" "inner \<noteq> []"
  shows "dget (flatten_meta_to_pyout (Some meta)) f =
           Some (VStr (join '', '' (map (\<lambda>kv. fst kv @ '': '' @ py_str (snd kv)) inner)))
     \<and> set (map fst (flatten_meta_to_pyout (Some meta))) \<subseteq> set (map fst meta)
     \<and> (\<forall>vf \<in> set (map fst (flatten_meta_to_pyout_v1 (Some inner))).
           dhas (flatten_meta_to_pyout_v1 (Some meta)) (f @ ''_'' @ vf))
     \<and> (\<forall>E cl s rec. cl_flatten cl \<and> cl_keys cl \<noteq> Some [''nwb_version'']
           \<and> fst (fn_try_body E cl (calls s)) = Inr rec \<longrightarrow>
           fst (fn_extract E cl s) = Inr (Some (flatten_meta_to_pyout rec)))"
proof -
  have a: "dget (flatten_meta_to_pyout (Some meta)) f =
           Some (VStr (join '', '' (map (\<lambda>kv. fst kv @ '': '' @ py_str (snd kv)) inner)))"
    using flatten_meta_to_pyout_dict_entry[OF assms] by (simp only: flatten_v_dict)
  have b: "set (map fst (flatten_meta_to_pyout (Some meta))) \<subseteq> set (map fst meta)"
    by (auto simp: flatten_meta_to_pyout_distinct[OF assms(1)])
  have c: "\<forall>vf \<in> set (map fst (flatten_meta_to_pyout_v1 (Some inner))).
           dhas (flatten_meta_to_pyout_v1 (Some meta)) (f @ ''_'' @ vf)"
    using flatten_meta_v1_loop_promotes[OF assms(2,3), of "[]"]
    by (auto simp: flatten_meta_to_pyout_v1_def dhas_def)
  have d: "\<forall>E cl s rec. cl_flatten cl \<and> cl_keys cl \<noteq> Some [''nwb_version'']
           \<and> fst (fn_try_body E cl (calls s)) = Inr rec \<longrightarrow>
           fst (fn_extract E cl s) = Inr (Some (flatten_meta_to_pyout rec))"
    by (auto simp: fn_extract_def split: prod.splits sum.splits)
  from a b c d show ?thesis by blast
qed

theorem flatten_meta_to_pyout_collapses_nested_mapping_witness:
  "distinct (map fst [(''age'', VStr ''P30D''),
                      (''subject'', VDict [(''age'', VInt 3), (''sex'', VStr ''M'')])])
   \<and> (''subject'', VDict [(''age'', VInt 3), (''sex'', VStr ''M'')])
       \<in> set [(''age'', VStr ''P30D''),
              (''subject'', VDict [(''age'', VInt 3), (''sex'', VStr ''M'')])]
   \<and> dget (flatten_meta_to_pyout
             (Some [(''age'', VStr ''P30D''),
                    (''subject'', VDict [(''age'', VInt 3), (''sex'', VStr ''M'')])]))
        ''subject'' = Some (VStr ''age: 3, sex: M'')
   \<and> dhas (flatten_meta_to_pyout_v1
             (Some [(''age'', VStr ''P30D''),
                    (''subject'', VDict [(''age'', VInt 3), (''sex'', VStr ''M'')])]))
        ''subject_age''"
  using flatten_meta_to_pyout_collapses_nested_mapping
    [of "[(''age'', VStr ''P30D''),
          (''subject'', VDict [(''age'', VInt 3), (''sex'', VStr ''M'')])]"
        "''subject''" "[(''age'', VInt 3), (''sex'', VStr ''M'')]"]
  by (simp add: flatten_meta_to_pyout_v1_def dhas_def py_str_def str_int_def str_nat.simps)

section \<open>Properties of the validators\<close>

text \<open>
  Claim C3. When the requested schema version differs from the supported one,
  \<^verbatim>\<open>validate_dandiset_yaml\<close> and \<^verbatim>\<open>validate_asset_file\<close> raise, whatever
  \<^verbatim>\<open>devel_debug\<close> is, and return no problem list: \<^verbatim>\<open>validate_asset_file\<close> raises the
  \<^verbatim>\<open>ValueError\<close> at once; \<^verbatim>\<open>validate_dandiset_yaml\<close> raises it as soon as the descriptor
  has been read (and the exception of the read if the descriptor cannot be read).
\<close>

theorem schema_version_mismatch_raises:
  assumes "v \<noteq> get_schema_version V"
  shows "(\<exists>e. validate_dandiset_yaml V p (Some v) devel_debug = (Inl e, []))
     \<and> (\<forall>meta. load_yaml V p = Inr meta \<longrightarrow>
           validate_dandiset_yaml V p (Some v) devel_debug =
             (Inl (unsupported_version (VStr v) (get_schema_version V)), []))
     \<and> validate_asset_file V p (Some v) devel_debug =
         (Inl (unsupported_version (VStr v) (get_schema_version V)), [])"
  using assms
  by (auto simp: validate_dandiset_yaml_def validate_asset_file_def split: sum.splits)

theorem schema_version_mismatch_raises_witness:
  "''0.4.0'' \<noteq> get_schema_version example_venv
   \<and> validate_dandiset_yaml example_venv ''ds/dandiset.yaml'' (Some ''0.4.0'') False =
       (Inl (Exc ''ValueError'' ''Unsupported schema version: 0.4.0; expected 0.6.0''), [])
   \<and> validate_dandiset_yaml example_venv ''ds/dandiset.yaml'' (Some ''0.4.0'') True =
       (Inl (Exc ''ValueError'' ''Unsupported schema version: 0.4.0; expected 0.6.0''), [])
   \<and> validate_asset_file example_venv ''a.nwb'' (Some ''0.4.0'') False =
       (Inl (Exc ''ValueError'' ''Unsupported schema version: 0.4.0; expected 0.6.0''), [])
   \<and> validate_asset_file example_venv ''a.nwb'' (Some ''0.4.0'') True =
       (Inl (Exc ''ValueError'' ''Unsupported schema version: 0.4.0; expected 0.6.0''), [])"
  using schema_version_mismatch_raises[of "''0.4.0''" example_venv "''ds/dandiset.yaml''" False]
    schema_version_mismatch_raises[of "''0.4.0''" example_venv "''ds/dandiset.yaml''" True]
    schema_version_mismatch_raises[of "''0.4.0''" example_venv "''a.nwb''" False]
    schema_version_mismatch_raises[of "''0.4.0''" example_venv "''a.nwb''" True]
  by (simp add: example_venv_def unsupported_version_def py_str_def)

text \<open>
  Claim C4, as stated, fails: \<^verbatim>\<open>validate_file\<close> calls \<^verbatim>\<open>validate_dandiset_yaml\<close> with
  \<^verbatim>\<open>schema_version=None\<close>, so the requested version never reaches it. For a descriptor
  that declares no \<^verbatim>\<open>schemaVersion\<close>, a requested version other than the supported one
  raises nothing, in either mode, and only the required fields are checked.
\<close>

theorem validate_file_descriptor_mismatch_not_raised:
  "basename ''ds/dandiset.yaml'' = dandiset_metadata_file example_venv
   \<and> ''0.4.0'' \<noteq> get_schema_version example_venv
   \<and> validate_file example_venv ''ds/dandiset.yaml'' (Some ''0.4.0'') False = (Inr [], [])
   \<and> validate_file example_venv ''ds/dandiset.yaml'' (Some ''0.4.0'') True = (Inr [], [])"
  by (simp add: example_venv_def validate_file_def basename_def validate_dandiset_yaml_def
      field_value_def dget_def check_required_fields_def check_field_def
      required_dandiset_metadata_fields_def no_value_def is_placeholder_def strip_empty_def
      py_isspace_def Let_def)

text \<open>
  Claim C4, amended. For a file whose basename is the descriptor filename,
  \<^verbatim>\<open>validate_file\<close> does not forward the requested schema version: the result is that of
  \<^verbatim>\<open>validate_dandiset_yaml\<close> with no version requested, whatever version was requested.
  The version that counts is the one the descriptor itself declares under
  \<^verbatim>\<open>schemaVersion\<close>: when it declares none, the required fields are checked; when it
  declares one that differs from the supported version, \<^verbatim>\<open>ValueError\<close> is raised at
  once, in both modes, rather than returned as a problem string; when it declares the
  supported version, the descriptor is validated against the versioned model.
\<close>

theorem validate_file_descriptor_uses_declared_version:
  assumes "basename p = dandiset_metadata_file V"
  shows "validate_file V p requested devel_debug = validate_dandiset_yaml V p None devel_debug
    \<and> (\<forall>d. load_yaml V p = Inr (VDict d) \<and> field_value d ''schemaVersion'' = VNone \<longrightarrow>
          validate_file V p requested devel_debug =
            (Inr (check_required_fields d required_dandiset_metadata_fields), []))
    \<and> (\<forall>d. load_yaml V p = Inr (VDict d) \<and> field_value d ''schemaVersion'' \<noteq> VNone
             \<and> field_value d ''schemaVersion'' \<noteq> VStr (get_schema_version V) \<longrightarrow>
          validate_file V p requested devel_debug =
            (Inl (unsupported_version (field_value d ''schemaVersion'') (get_schema_version V)), []))
    \<and> (\<forall>d. load_yaml V p = Inr (VDict d)
             \<and> field_value d ''schemaVersion'' = VStr (get_schema_version V) \<longrightarrow>
          validate_file V p requested devel_debug =
            (case dandiset_meta_model V (VDict d) of
               Inr u \<Rightarrow> (Inr [], [])
             | Inl e \<Rightarrow> model_failure ''Failed to initialize Dandiset meta: '' p devel_debug e))"
  using assms
  by (auto simp: validate_file_def validate_dandiset_yaml_def split: sum.splits)

theorem validate_file_descriptor_uses_declared_version_witness:
  "basename ''old/dandiset.yaml'' = dandiset_metadata_file example_venv
   \<and> validate_file example_venv ''old/dandiset.yaml'' (Some ''0.6.0'') False =
       (Inl (Exc ''ValueError'' ''Unsupported schema version: 0.3.0; expected 0.6.0''), [])"
  using validate_file_descriptor_uses_declared_version
    [of "''old/dandiset.yaml''" example_venv "Some ''0.6.0''" False]
  by (simp add: example_venv_def basename_def field_value_def dget_def unsupported_version_def
      py_str_def validate_file_def validate_dandiset_yaml_def)

section \<open>Properties of the validation cache\<close>

lemma dget_dset_same: "dget (dset d k v) k = Some v"
  by (induction d) (auto simp: dget_def)



section \<open>Properties of the collector\<close>

lemma dset_nonempty: "dset d k v \<noteq> []"
  by (induction d k v rule: dset.induct) simp_all

lemma merge_items_nonempty: "r \<noteq> [] \<Longrightarrow> merge_items items r \<noteq> []"
  by (induction items r rule: merge_items.induct) (simp_all add: dset_nonempty)

lemma ls_try_async_fields_nonempty:
  assumes "rec_fields r0 \<noteq> []"
  shows "rec_fields (fst (snd (ls_try_async E format schema fake akeys asset r0 s))) \<noteq> []"
proof (cases "akeys = [] \<or> format = Pyout")
  case True
  then show ?thesis using assms by (auto simp: ls_try_async_def Let_def)
next
  case False
  obtain r s' where c:
    "call_fn E (get_metadata_ls asset (Some akeys) False schema fake) s = (r, s')"
    by (cases "call_fn E (get_metadata_ls asset (Some akeys) False schema fake) s") auto
  show ?thesis
  proof (cases r)
    case (Inl e)
    then show ?thesis using assms c False by (simp add: ls_try_async_def Let_def)
  next
    case (Inr x)
    then show ?thesis using assms c False
      by (cases x) (simp_all add: ls_try_async_def Let_def merge_items_nonempty)
  qed
qed

lemma ls_try_fields_nonempty:
  "rec_fields (fst (snd (ls_try E flds format schema fake akeys asset s))) \<noteq> []"
proof (cases "stat_size E asset")
  case (Inl e)
  then show ?thesis
    by (simp add: ls_try_def Let_def ls_try_async_fields_nonempty)
next
  case (Inr n)
  then show ?thesis
    by (simp add: ls_try_def Let_def ls_try_async_fields_nonempty dset_nonempty)
qed

text \<open>
  Claim C9, as stated, fails: the record of a path asset always holds \<^verbatim>\<open>path\<close>, so it
  is never empty for the test \<^verbatim>\<open>if not rec\<close>. With only \<^verbatim>\<open>path\<close> requested, the record
  of \<^verbatim>\<open>a.nwb\<close> holds the identifier and nothing else; it goes to the sink, the ledger
  stays empty and no summary is written.
\<close>

theorem ls_identifier_only_record_not_ledgered: "ls example_env example_all_fields (Some [''path'']) Json None False [VStr ''a.nwb'']
  = \<lparr>raised = None,
     emitted = [\<lparr>rec_fields = [(''path'', VStr ''a.nwb'')], rec_async = None\<rparr>],
     final = \<lparr>errors = [], calls = []\<rparr>,
     warning = None\<rparr>"
  by (simp add: ls_def pyout_fields_def async_keys_def common_fields_def example_all_fields_def
      ls_asset_def ls_try_def ls_try_async_def fields_falsy_def fields_has_def 
      ls_emit_def summary_def Let_def)

lemma ls_try_async_exc_rec:
  assumes "fst (ls_try_async E format schema fake akeys asset r0 s) = Some e"
  shows "fst (snd (ls_try_async E format schema fake akeys asset r0 s)) = r0"
proof (cases "akeys = [] \<or> format = Pyout")
  case True
  then show ?thesis using assms by (auto simp: ls_try_async_def Let_def)
next
  case False
  obtain r s' where c:
    "call_fn E (get_metadata_ls asset (Some akeys) False schema fake) s = (r, s')"
    by (cases "call_fn E (get_metadata_ls asset (Some akeys) False schema fake) s") auto
  show ?thesis
  proof (cases r)
    case (Inl e')
    then show ?thesis using c False by (simp add: ls_try_async_def Let_def)
  next
    case (Inr x)
    then show ?thesis using assms c False
      by (cases x) (simp_all add: ls_try_async_def Let_def)
  qed
qed

lemma ls_try_exc_rec:
  assumes "fst (ls_try E flds format schema fake akeys p s) = Some e"
  shows "dget (rec_fields (fst (snd (ls_try E flds format schema fake akeys p s)))) ''errors'' = None"
proof (cases "(fields_falsy flds \<or> fields_has flds ''size'') \<and> \<not> isdir E p")
  case False
  then have eq: "ls_try E flds format schema fake akeys p s =
      ls_try_async E format schema fake akeys p \<lparr>rec_fields = [(''path'', VStr p)], rec_async = None\<rparr> s"
    by (auto simp: ls_try_def Let_def)
  show ?thesis
    using assms ls_try_async_exc_rec[of E format schema fake akeys p
        "\<lparr>rec_fields = [(''path'', VStr p)], rec_async = None\<rparr>" s e]
    by (simp add: eq dget_def)
next
  case True
  show ?thesis
  proof (cases "stat_size E p")
    case (Inl e')
    then show ?thesis using True by (simp add: ls_try_def Let_def dget_def)
  next
    case (Inr n)
    then have eq: "ls_try E flds format schema fake akeys p s =
      ls_try_async E format schema fake akeys p
        \<lparr>rec_fields = [(''path'', VStr p), (''size'', VInt n)], rec_async = None\<rparr>
        (s\<lparr>calls := calls s @ [CStat p]\<rparr>)"
      using True by (simp add: ls_try_def Let_def)
    show ?thesis
      using assms ls_try_async_exc_rec[of E format schema fake akeys p
        "\<lparr>rec_fields = [(''path'', VStr p), (''size'', VInt n)], rec_async = None\<rparr>"
        "s\<lparr>calls := calls s @ [CStat p]\<rparr>" e]
      by (simp add: eq dget_def)
  qed
qed

lemma ls_asset_path_emitted:
  "\<exists>r. fst (ls_asset E flds format schema fake akeys (VStr p) s) = Inr (Some r)
       \<and> rec_fields r \<noteq> []"
proof -
  obtain x r0 s1 where t: "ls_try E flds format schema fake akeys p s = (x, r0, s1)"
    by (cases "ls_try E flds format schema fake akeys p s") auto
  have ne: "rec_fields r0 \<noteq> []"
    using ls_try_fields_nonempty[of E flds format schema fake akeys p s] by (simp add: t)
  show ?thesis
  proof (cases x)
    case None
    then show ?thesis using t ne by (simp add: ls_asset_def ls_emit_def)
  next
    case (Some e)
    have "dget (rec_fields r0) ''errors'' = None"
      using ls_try_exc_rec[of E flds format schema fake akeys p s e] t Some by simp
    then show ?thesis using t Some
      by (simp add: ls_asset_def ls_emit_def add_exc_error_def plus_one_def Let_def dset_nonempty)
  qed
qed

text \<open>
  How often the empty ready record occurs in the ledger entry \<^verbatim>\<open>"Empty record"\<close>; the
  loop is followed with this count.
\<close>

definition empty_count :: "ledger \<Rightarrow> nat" where
  "empty_count l =
     count_list (case dget l ''Empty record'' of None \<Rightarrow> [] | Some xs \<Rightarrow> xs) (VDict [])"

lemma dget_dset_other: "k' \<noteq> k \<Longrightarrow> dget (dset d k v) k' = dget d k'"
  by (induction d k v rule: dset.induct) (simp_all add: dget_def)

lemma ledger_append_same:
  "dget (ledger_append l k a) k = Some ((case dget l k of None \<Rightarrow> [] | Some xs \<Rightarrow> xs) @ [a])"
  by (simp add: ledger_append_def dget_dset_same)

lemma ledger_append_other: "k' \<noteq> k \<Longrightarrow> dget (ledger_append l k a) k' = dget l k'"
  by (simp add: ledger_append_def dget_dset_other)

lemma empty_count_append:
  "empty_count (ledger_append l k a) =
     empty_count l + (if k = ''Empty record'' \<and> a = VDict [] then 1 else 0)"
proof (cases "k = ''Empty record''")
  case True
  then show ?thesis by (simp add: empty_count_def ledger_append_same)
next
  case False
  then have "dget (ledger_append l k a) ''Empty record'' = dget l ''Empty record''"
    by (simp add: ledger_append_other)
  with False show ?thesis by (simp add: empty_count_def)
qed

lemma empty_count_add_exc_error:
  "empty_count (snd (add_exc_error (VStr p) r l e)) = empty_count l"
  by (cases "plus_one (case dget r ''errors'' of None \<Rightarrow> VInt 0 | Some c \<Rightarrow> c)")
     (simp_all add: add_exc_error_def Let_def empty_count_append)

lemma empty_count_fn_extract:
  "empty_count (errors (snd (fn_extract E cl s))) = empty_count (errors s)"
proof (cases "cl_keys cl = None \<or> cl_keys cl \<noteq> Some [''nwb_version'']")
  case False
  then show ?thesis by (simp add: fn_extract_def)
next
  case True
  obtain r cs where x: "fn_try_body E cl (calls s) = (r, cs)"
    by (cases "fn_try_body E cl (calls s)") auto
  show ?thesis
  proof (cases r)
    case (Inr v)
    then show ?thesis using True x by (simp add: fn_extract_def)
  next
    case (Inl e)
    have ec: "empty_count (snd (add_exc_error (VStr (cl_path cl)) [] (errors s) e)) = empty_count (errors s)"
      by (rule empty_count_add_exc_error)
    show ?thesis using True x Inl ec
      by (cases "fst (add_exc_error (VStr (cl_path cl)) [] (errors s) e)")
         (simp_all add: fn_extract_def)
  qed
qed

lemma empty_count_fn_nwb_version:
  "empty_count (errors (snd (fn_nwb_version E cl r s))) = empty_count (errors s)"
proof (cases r)
  case None
  then show ?thesis by (simp add: fn_nwb_version_def Let_def)
next
  case (Some d)
  show ?thesis
  proof (cases "get_nwb_version E (cl_path cl)")
    case (Inl e)
    then show ?thesis using Some
      by (simp add: fn_nwb_version_def Let_def empty_count_add_exc_error)
  next
    case (Inr v)
    then show ?thesis using Some by (simp add: fn_nwb_version_def Let_def)
  qed
qed

lemma empty_count_call_fn:
  "empty_count (errors (snd (call_fn E cl s))) = empty_count (errors s)"
proof -
  obtain r s1 where x: "fn_extract E cl s = (r, s1)"
    by (cases "fn_extract E cl s") auto
  have s1: "empty_count (errors s1) = empty_count (errors s)"
    using empty_count_fn_extract[of E cl s] x by simp
  show ?thesis
  proof (cases r)
    case (Inl e)
    then show ?thesis using x s1 by (simp add: call_fn_def)
  next
    case (Inr v)
    show ?thesis
    proof (cases "fn_select cl v")
      case (Inl e)
      then show ?thesis using x s1 Inr by (simp add: call_fn_def)
    next
      case (Inr v')
      then show ?thesis
        using x s1 \<open>r = Inr v\<close> empty_count_fn_nwb_version[of E cl v' s1]
        by (simp add: call_fn_def)
    qed
  qed
qed

lemma empty_count_ls_try_async:
  "empty_count (errors (snd (snd (ls_try_async E format schema fake akeys asset r0 s))))
     = empty_count (errors s)"
proof (cases "akeys = [] \<or> format = Pyout")
  case True
  then show ?thesis by (auto simp: ls_try_async_def Let_def)
next
  case False
  let ?cl = "get_metadata_ls asset (Some akeys) False schema fake"
  obtain r s1 where x: "call_fn E ?cl s = (r, s1)"
    by (cases "call_fn E ?cl s") auto
  have s1: "empty_count (errors s1) = empty_count (errors s)"
    using empty_count_call_fn[of E ?cl s] x by simp
  show ?thesis
  proof (cases r)
    case (Inl e)
    then show ?thesis using False x s1 by (simp add: ls_try_async_def Let_def)
  next
    case (Inr v)
    then show ?thesis using False x s1
      by (cases v) (simp_all add: ls_try_async_def Let_def)
  qed
qed

lemma empty_count_ls_try:
  "empty_count (errors (snd (snd (ls_try E flds format schema fake akeys asset s))))
     = empty_count (errors s)"
proof (cases "(fields_falsy flds \<or> fields_has flds ''size'') \<and> \<not> isdir E asset")
  case False
  then show ?thesis
    using empty_count_ls_try_async[of E format schema fake akeys asset _ s]
    by (auto simp: ls_try_def Let_def)
next
  case True
  show ?thesis
  proof (cases "stat_size E asset")
    case (Inl e)
    then show ?thesis using True by (simp add: ls_try_def Let_def)
  next
    case (Inr n)
    then show ?thesis
      using True empty_count_ls_try_async[of E format schema fake akeys asset _
                "s\<lparr>calls := calls s @ [CStat asset]\<rparr>"]
      by (simp add: ls_try_def Let_def)
  qed
qed


lemma add_exc_error_nonempty: "fst (add_exc_error a r l e) = Inr d \<Longrightarrow> d \<noteq> []"
  by (cases "plus_one (case dget r ''errors'' of None \<Rightarrow> VInt 0 | Some c \<Rightarrow> c)")
     (auto simp: add_exc_error_def Let_def dset_nonempty)

lemma ls_emit_nonempty:
  "\<not> (rec_fields r0 = [] \<and> rec_async r0 = None) \<Longrightarrow> ls_emit a r0 s = (Inr (Some r0), s)"
  by (auto simp: ls_emit_def)

lemma empty_count_ls_asset:
  "empty_count (errors (snd (ls_asset E flds format None fake akeys a s)))
     = empty_count (errors s) + (if a = VDict [] then 1 else 0)"
proof (cases a)
  case (VStr p)
  obtain x r0 s1 where t: "ls_try E flds format None fake akeys p s = (x, r0, s1)"
    by (cases "ls_try E flds format None fake akeys p s") auto
  have ne: "rec_fields r0 \<noteq> []"
    using ls_try_fields_nonempty[of E flds format None fake akeys p s] by (simp add: t)
  have s1: "empty_count (errors s1) = empty_count (errors s)"
    using empty_count_ls_try[of E flds format None fake akeys p s] by (simp add: t)
  show ?thesis
  proof (cases x)
    case None
    then show ?thesis using VStr t s1 ls_emit_nonempty[of r0 a s1] ne
      by (simp add: ls_asset_def)
  next
    case (Some e)
    obtain y l where ae: "add_exc_error a (rec_fields r0) (errors s1) e = (y, l)"
      by (cases "add_exc_error a (rec_fields r0) (errors s1) e") auto
    have l: "empty_count l = empty_count (errors s)"
      using empty_count_add_exc_error[of p "rec_fields r0" "errors s1" e] ae VStr s1 by simp
    show ?thesis
    proof (cases y)
      case (Inl e')
      then show ?thesis using VStr t Some ae l by (simp add: ls_asset_def)
    next
      case (Inr d)
      have "d \<noteq> []" using add_exc_error_nonempty[of a "rec_fields r0" "errors s1" e d] ae Inr
        by simp
      then have "ls_emit a (r0\<lparr>rec_fields := d\<rparr>) (s1\<lparr>errors := l\<rparr>)
                   = (Inr (Some (r0\<lparr>rec_fields := d\<rparr>)), s1\<lparr>errors := l\<rparr>)"
        by (intro ls_emit_nonempty) simp
      then show ?thesis using VStr t Some ae Inr l by (simp add: ls_asset_def)
    qed
  qed
next
  case (VDict d)
  then show ?thesis
    by (cases "d = []") (simp_all add: ls_asset_def ls_emit_def empty_count_append)
qed (simp_all add: ls_asset_def)

lemma empty_count_ls_loop:
  "ls_loop E flds format None fake akeys assets s out = (None, out', s') \<Longrightarrow>
   empty_count (errors s') = empty_count (errors s) + count_list assets (VDict [])"
proof (induction assets arbitrary: s out)
  case Nil
  then show ?case by simp
next
  case (Cons a assets)
  obtain res s1 where x: "ls_asset E flds format None fake akeys a s = (res, s1)"
    by (cases "ls_asset E flds format None fake akeys a s") auto
  have s1: "empty_count (errors s1) = empty_count (errors s) + (if a = VDict [] then 1 else 0)"
    using empty_count_ls_asset[of E flds format fake akeys a s] x by simp
  show ?case
  proof (cases res)
    case (Inl e)
    then show ?thesis using Cons.prems x by simp
  next
    case (Inr v)
    show ?thesis
    proof (cases v)
      case None
      with Cons.prems x Inr
      have "ls_loop E flds format None fake akeys assets s1 out = (None, out', s')" by simp
      from Cons.IH[OF this] s1 show ?thesis by simp
    next
      case (Some r1)
      with Cons.prems x Inr
      have "ls_loop E flds format None fake akeys assets s1 (out @ [r1]) = (None, out', s')"
        by simp
      from Cons.IH[OF this] s1 show ?thesis by simp
    qed
  qed
qed

lemma ls_asset_emits_nonempty:
  assumes "fst (ls_asset E flds format schema fake akeys a s) = Inr (Some r)"
  shows "\<not> (rec_fields r = [] \<and> rec_async r = None)"
proof -
  have em: "\<not> (rec_fields r = [] \<and> rec_async r = None)"
    if "fst (ls_emit a r0 s0) = Inr (Some r)" for r0 s0
    using that by (auto simp: ls_emit_def split: if_splits)
  show ?thesis
  proof (cases a)
    case (VStr p)
    obtain x r0 s1 where t: "ls_try E flds format schema fake akeys p s = (x, r0, s1)"
      by (cases "ls_try E flds format schema fake akeys p s") auto
    show ?thesis
    proof (cases x)
      case None
      then show ?thesis using assms VStr t em[of r0 s1] by (simp add: ls_asset_def)
    next
      case (Some e)
      obtain y l where ae: "add_exc_error a (rec_fields r0) (errors s1) e = (y, l)"
        by (cases "add_exc_error a (rec_fields r0) (errors s1) e") auto
      show ?thesis
      proof (cases y)
        case (Inl e')
        then show ?thesis using assms VStr t Some ae by (simp add: ls_asset_def)
      next
        case (Inr d)
        then show ?thesis
          using assms VStr t Some ae em[of "r0\<lparr>rec_fields := d\<rparr>" "s1\<lparr>errors := l\<rparr>"]
          by (simp add: ls_asset_def)
      qed
    qed
  next
    case (VDict d)
    then show ?thesis
      using assms em[of "\<lparr>rec_fields = d, rec_async = None\<rparr>" s]
      by (auto simp: ls_asset_def split: if_splits)
  qed (use assms in \<open>simp_all add: ls_asset_def\<close>)
qed

lemma ls_loop_emits_nonempty:
  "list_all (\<lambda>r. \<not> (rec_fields r = [] \<and> rec_async r = None)) out \<Longrightarrow>
   list_all (\<lambda>r. \<not> (rec_fields r = [] \<and> rec_async r = None))
     (fst (snd (ls_loop E flds format schema fake akeys assets s out)))"
proof (induction assets arbitrary: s out)
  case Nil
  then show ?case by simp
next
  case (Cons a assets)
  obtain res s1 where x: "ls_asset E flds format schema fake akeys a s = (res, s1)"
    by (cases "ls_asset E flds format schema fake akeys a s") auto
  show ?case
  proof (cases res)
    case (Inl e)
    then show ?thesis using x Cons.prems by simp
  next
    case (Inr v)
    show ?thesis
    proof (cases v)
      case None
      then show ?thesis using x Inr Cons.IH[OF Cons.prems] by simp
    next
      case (Some r1)
      have "\<not> (rec_fields r1 = [] \<and> rec_async r1 = None)"
        using ls_asset_emits_nonempty[of E flds format schema fake akeys a s r1] x Inr Some
        by simp
      then have "list_all (\<lambda>r. \<not> (rec_fields r = [] \<and> rec_async r = None)) (out @ [r1])"
        using Cons.prems by simp
      from Cons.IH[OF this] show ?thesis using x Inr Some by simp
    qed
  qed
qed


text \<open>
  Claim C9, amended. When no schema is requested, an asset whose record is entirely
  empty is appended to the ledger entry \<^verbatim>\<open>"Empty record"\<close>, after the assets already
  listed there and leaving the other entries as they are, and the iteration ends without
  handing a record to the sink; no run ever hands an empty record to the sink. When
  such a run ends normally, the entry lists the empty ready record as many times as it
  occurs among the assets, and the end-of-run warning has one line per ledger kind, the
  line \<^verbatim>\<open>Empty record: n paths\<close> among them; a run that an exception ends writes no
  warning. When a schema is requested, an empty ready record raises
  \<^verbatim>\<open>NotImplementedError\<close> before the test for emptiness and is not ledgered. Only a
  ready record that is itself an empty mapping can be empty: a non-empty ready record
  goes to the sink unchanged (unless a schema is requested and the record's
  \<^verbatim>\<open>schemaVersion\<close> differs from it, which raises), and the iteration for a path asset
  always hands a non-empty record to the sink, since its record always holds \<^verbatim>\<open>path\<close>.
\<close>

theorem ls_empty_record_ledgered:
  "ls_asset E flds format None fake akeys (VDict []) s =
     (Inr None, s\<lparr>errors := ledger_append (errors s) ''Empty record'' (VDict [])\<rparr>)
   \<and> ls_asset E flds format (Some v) fake akeys (VDict []) s =
       (Inl (Exc ''NotImplementedError''
              (''Record conversion between schema versions is not implemented.  Found schemaVersion=None where ''
               @ v @ '' was requested'')), s)
   \<and> dget (ledger_append l k a) k = Some ((case dget l k of None \<Rightarrow> [] | Some xs \<Rightarrow> xs) @ [a])
   \<and> (\<forall>k'. k' \<noteq> k \<longrightarrow> dget (ledger_append l k a) k' = dget l k')
   \<and> (let res = ls E all_fields flds format None fake assets in
        (raised res = None \<and> VDict [] \<in> set assets \<longrightarrow>
           (\<exists>xs. dget (errors (final res)) ''Empty record'' = Some xs
                \<and> count_list xs (VDict []) = count_list assets (VDict [])
                \<and> warning res =
                    Some (''Failed to operate on some paths (empty records were listed):''
                          @ [CHR 0x0A] @ '' '' @ join ([CHR 0x0A] @ '' '')
                            (map (\<lambda>kv. fst kv @ '': '' @ str_int (int (length (snd kv))) @ '' paths'')
                               (errors (final res))))
                \<and> ''Empty record: '' @ str_int (int (length xs)) @ '' paths''
                    \<in> set (map (\<lambda>kv. fst kv @ '': '' @ str_int (int (length (snd kv))) @ '' paths'')
                              (errors (final res)))))
        \<and> (raised res \<noteq> None \<longrightarrow> warning res = None))
   \<and> list_all (\<lambda>r. \<not> (rec_fields r = [] \<and> rec_async r = None))
        (emitted (ls E all_fields flds format schema fake assets))
   \<and> (\<forall>d. d \<noteq> [] \<longrightarrow> ls_asset E flds format schema fake akeys (VDict d) s =
          (if (case schema of None \<Rightarrow> False
               | Some w \<Rightarrow> field_value d ''schemaVersion'' \<noteq> VStr w)
           then (Inl (Exc ''NotImplementedError''
                   (''Record conversion between schema versions is not implemented.  Found schemaVersion=''
                    @ py_str (field_value d ''schemaVersion'') @ '' where '' @ the schema
                    @ '' was requested'')), s)
           else (Inr (Some \<lparr>rec_fields = d, rec_async = None\<rparr>), s)))
   \<and> (\<exists>r. fst (ls_asset E flds format schema fake akeys (VStr p) s) = Inr (Some r)
          \<and> rec_fields r \<noteq> [])"
proof -
  have a: "ls_asset E flds format None fake akeys (VDict []) s =
     (Inr None, s\<lparr>errors := ledger_append (errors s) ''Empty record'' (VDict [])\<rparr>)"
    by (simp add: ls_asset_def ls_emit_def)
  have b: "ls_asset E flds format (Some v) fake akeys (VDict []) s =
       (Inl (Exc ''NotImplementedError''
              (''Record conversion between schema versions is not implemented.  Found schemaVersion=None where ''
               @ v @ '' was requested'')), s)"
    by (simp add: ls_asset_def field_value_def dget_def py_str_def)
  have c: "dget (ledger_append l k a) k = Some ((case dget l k of None \<Rightarrow> [] | Some xs \<Rightarrow> xs) @ [a])"
    by (rule ledger_append_same)
  have c': "\<forall>k'. k' \<noteq> k \<longrightarrow> dget (ledger_append l k a) k' = dget l k'"
    by (simp add: ledger_append_other)
  define K where "K = async_keys all_fields (pyout_fields format flds)"
  define res where "res = ls E all_fields flds format None fake assets"
  obtain x out s' where loop:
    "ls_loop E (pyout_fields format flds) format None fake K assets \<lparr>errors = [], calls = []\<rparr> []
       = (x, out, s')"
    by (cases "ls_loop E (pyout_fields format flds) format None fake K assets
                 \<lparr>errors = [], calls = []\<rparr> []") auto
  have res: "raised res = x" "errors (final res) = errors s'"
    "warning res = (if x = None then summary (errors s') else None)"
    using loop by (simp_all add: res_def ls_def Let_def K_def)
  have d1: "\<exists>xs. dget (errors (final res)) ''Empty record'' = Some xs
                \<and> count_list xs (VDict []) = count_list assets (VDict [])
                \<and> warning res =
                    Some (''Failed to operate on some paths (empty records were listed):''
                          @ [CHR 0x0A] @ '' '' @ join ([CHR 0x0A] @ '' '')
                            (map (\<lambda>kv. fst kv @ '': '' @ str_int (int (length (snd kv))) @ '' paths'')
                               (errors (final res))))
                \<and> ''Empty record: '' @ str_int (int (length xs)) @ '' paths''
                    \<in> set (map (\<lambda>kv. fst kv @ '': '' @ str_int (int (length (snd kv))) @ '' paths'')
                              (errors (final res)))"
    if n: "raised res = None" and m: "VDict [] \<in> set assets"
  proof -
    from n res have x: "x = None" by simp
    from empty_count_ls_loop[OF loop[unfolded x]]
    have ec: "empty_count (errors s') = count_list assets (VDict [])"
      by (simp add: empty_count_def dget_def)
    from m have pos: "count_list assets (VDict []) \<noteq> 0" by (simp add: count_list_0_iff)
    obtain xs where xs: "dget (errors s') ''Empty record'' = Some xs"
      using ec pos by (cases "dget (errors s') ''Empty record''") (auto simp: empty_count_def)
    have cnt: "count_list xs (VDict []) = count_list assets (VDict [])"
      using ec xs by (simp add: empty_count_def)
    have mem: "(''Empty record'', xs) \<in> set (errors s')"
      using xs by (auto simp: dget_def dest: map_of_SomeD)
    then have ne: "errors s' \<noteq> []" by auto
    have w: "warning res =
                    Some (''Failed to operate on some paths (empty records were listed):''
                          @ [CHR 0x0A] @ '' '' @ join ([CHR 0x0A] @ '' '')
                            (map (\<lambda>kv. fst kv @ '': '' @ str_int (int (length (snd kv))) @ '' paths'')
                               (errors (final res))))"
      using ne x by (simp add: res summary_def)
    have line: "''Empty record: '' @ str_int (int (length xs)) @ '' paths''
                    \<in> set (map (\<lambda>kv. fst kv @ '': '' @ str_int (int (length (snd kv))) @ '' paths'')
                              (errors (final res)))"
      using mem by (force simp: res)
    from xs cnt w line show ?thesis by (auto simp: res)
  qed
  have d2: "raised res \<noteq> None \<longrightarrow> warning res = None"
    by (simp add: res)
  have e: "list_all (\<lambda>r. \<not> (rec_fields r = [] \<and> rec_async r = None))
        (emitted (ls E all_fields flds format schema fake assets))"
  proof -
    obtain x2 out2 s2 where loop2:
      "ls_loop E (pyout_fields format flds) format schema fake K assets \<lparr>errors = [], calls = []\<rparr> []
         = (x2, out2, s2)"
      by (cases "ls_loop E (pyout_fields format flds) format schema fake K assets
                   \<lparr>errors = [], calls = []\<rparr> []") auto
    have "list_all (\<lambda>r. \<not> (rec_fields r = [] \<and> rec_async r = None)) out2"
      using ls_loop_emits_nonempty[of "[]" E "pyout_fields format flds" format schema fake K
              assets "\<lparr>errors = [], calls = []\<rparr>"] loop2
      by simp
    moreover have "emitted (ls E all_fields flds format schema fake assets) = out2"
      using loop2 by (simp add: ls_def Let_def K_def)
    ultimately show ?thesis by simp
  qed
  have f: "\<forall>d. d \<noteq> [] \<longrightarrow> ls_asset E flds format schema fake akeys (VDict d) s =
          (if (case schema of None \<Rightarrow> False
               | Some w \<Rightarrow> field_value d ''schemaVersion'' \<noteq> VStr w)
           then (Inl (Exc ''NotImplementedError''
                   (''Record conversion between schema versions is not implemented.  Found schemaVersion=''
                    @ py_str (field_value d ''schemaVersion'') @ '' where '' @ the schema
                    @ '' was requested'')), s)
           else (Inr (Some \<lparr>rec_fields = d, rec_async = None\<rparr>), s))"
    by (simp add: ls_asset_def ls_emit_def)
  have g: "\<exists>r. fst (ls_asset E flds format schema fake akeys (VStr p) s) = Inr (Some r)
          \<and> rec_fields r \<noteq> []"
    by (rule ls_asset_path_emitted)
  have d1': "raised res = None \<and> VDict [] \<in> set assets \<longrightarrow>
           (\<exists>xs. dget (errors (final res)) ''Empty record'' = Some xs
                \<and> count_list xs (VDict []) = count_list assets (VDict [])
                \<and> warning res =
                    Some (''Failed to operate on some paths (empty records were listed):''
                          @ [CHR 0x0A] @ '' '' @ join ([CHR 0x0A] @ '' '')
                            (map (\<lambda>kv. fst kv @ '': '' @ str_int (int (length (snd kv))) @ '' paths'')
                               (errors (final res))))
                \<and> ''Empty record: '' @ str_int (int (length xs)) @ '' paths''
                    \<in> set (map (\<lambda>kv. fst kv @ '': '' @ str_int (int (length (snd kv))) @ '' paths'')
                              (errors (final res))))"
    using d1 by blast
  show ?thesis
    unfolding Let_def res_def[symmetric]
    by (intro conjI a b c c' d1' d2 e f g)
qed



theorem ls_empty_record_ledgered_witness:
  "ls example_env example_all_fields (Some [''path'']) Json None False
     [VDict [], VStr ''a.nwb'', VDict [], VDict [(''path'', VStr ''x'')]]
   = \<lparr>raised = None,
      emitted = [\<lparr>rec_fields = [(''path'', VStr ''a.nwb'')], rec_async = None\<rparr>,
                 \<lparr>rec_fields = [(''path'', VStr ''x'')], rec_async = None\<rparr>],
      final = \<lparr>errors = [(''Empty record'', [VDict [], VDict []])], calls = []\<rparr>,
      warning = Some (''Failed to operate on some paths (empty records were listed):''
                      @ [CHR 0x0A] @ '' Empty record: 2 paths'')\<rparr>
   \<and> ls example_env example_all_fields (Some [''path'']) Json None False [VDict [], VInt 3]
   = \<lparr>raised = Some (Exc ''TypeError'' ''3''),
      emitted = [],
      final = \<lparr>errors = [(''Empty record'', [VDict []])], calls = []\<rparr>,
      warning = None\<rparr>"
proof -
  have step: "ls_asset example_env (Some [''path'']) Json None False [] (VDict [])
                \<lparr>errors = [], calls = []\<rparr>
              = (Inr None, \<lparr>errors = [], calls = []\<rparr>
                   \<lparr>errors := ledger_append (errors \<lparr>errors = [], calls = []\<rparr>) ''Empty record'' (VDict [])\<rparr>)"
    using ls_empty_record_ledgered[of example_env "Some [''path'']" Json False "[]"
      "\<lparr>errors = [], calls = []\<rparr>" "''0.6.0''" "[]" "''Empty record''" "VDict []"
      example_all_fields "[VDict [], VStr ''a.nwb'', VDict [], VDict [(''path'', VStr ''x'')]]"
      None "''a.nwb''"]
    by (rule conjunct1)
  show ?thesis
    using step
    by (simp add: ls_def pyout_fields_def async_keys_def common_fields_def example_all_fields_def
      ls_asset_def ls_try_def ls_try_async_def fields_falsy_def fields_has_def ledger_append_def dget_def
      ls_emit_def summary_def Let_def str_int_def str_nat.simps py_str_def)
qed

section \<open>Properties of the generator \<^verbatim>\<open>validate\<close>\<close>

text \<open>
  Claim C5 at a failing input. In lenient mode, with no schema version requested, the
  discovered files are \<^verbatim>\<open>a.nwb\<close>, the descriptor \<^verbatim>\<open>broken/dandiset.yaml\<close>, which is
  not valid YAML, and \<^verbatim>\<open>b.nwb\<close>. Reading the descriptor (lines 91-92 of
  \<^verbatim>\<open>validate_dandiset_yaml\<close>) is outside every \<^verbatim>\<open>try\<close> block: the exception is not
  caught and not logged, no pair is yielded for the descriptor, the generator ends
  after the pair of \<^verbatim>\<open>a.nwb\<close> and \<^verbatim>\<open>b.nwb\<close> is never validated. The sibling
  \<^verbatim>\<open>validate_asset_file\<close> does catch a failing read of the metadata (lines 172-183):
  for \<^verbatim>\<open>bad.nwb\<close> in the same position the exception becomes the file's single problem,
  one warning is logged, and the sequence goes on.
\<close>

theorem validate_lenient_halts_on_unreadable_descriptor:
  "validate broken_venv None False [''a.nwb'', ''broken/dandiset.yaml'', ''b.nwb'']
     = ([(''a.nwb'', [])],
        Some (Exc ''ScannerError'' ''mapping values are not allowed here''),
        [])
   \<and> validate_file broken_venv ''broken/dandiset.yaml'' None False
     = (Inl (Exc ''ScannerError'' ''mapping values are not allowed here''), [])
   \<and> validate broken_venv None False [''a.nwb'', ''bad.nwb'', ''b.nwb'']
     = ([(''a.nwb'', []), (''bad.nwb'', [''Failed to read metadata: cannot read'']),
         (''b.nwb'', [])],
        None,
        [Warning ''Failed to read metadata in bad.nwb: cannot read''])"
  by (simp add: validate_file_def broken_venv_def example_venv_def basename_def splitext_ext_def
      Let_def validate_asset_file_def validate_dandiset_yaml_def field_value_def dget_def
      check_required_fields_def check_field_def required_nwb_metadata_fields_def no_value_def
      is_placeholder_def strip_empty_def py_isspace_def)

section \<open>The expensive calls of the collector\<close>

























text \<open>
  Claim C1 at a failing input. The file \<^verbatim>\<open>corrupt.nwb\<close> exists and \<^verbatim>\<open>get_metadata\<close>
  raises \<^verbatim>\<open>ValueError\<close> on it; the field \<^verbatim>\<open>age\<close> is requested, in a non-tabular format.
  The exception is caught inside the callback and the asset is ledgered under
  \<^verbatim>\<open>ValueError\<close>, the record is emitted and the run ends normally; but the counter that
  \<^verbatim>\<open>_add_exc_error\<close> stored in the callback's record (line 376) is removed by the
  selection of the requested keys (line 380), and the emitted record has no \<^verbatim>\<open>errors\<close>
  entry. The other catch site, at the \<^verbatim>\<open>stat\<close> of \<^verbatim>\<open>missing.nwb\<close>, keeps the counter.
\<close>

theorem ls_metadata_failure_loses_errors_counter:
  "ls example_env example_all_fields (Some [''age'']) Json None False [VStr ''corrupt.nwb'']
     = \<lparr>raised = None,
        emitted = [\<lparr>rec_fields = [(''path'', VStr ''corrupt.nwb'')], rec_async = None\<rparr>],
        final = \<lparr>errors = [(''ValueError'', [VStr ''corrupt.nwb''])],
                 calls = [CGetDigest ''corrupt.nwb'' ''dandi-etag'', CGetMetadata ''corrupt.nwb'']\<rparr>,
        warning = Some (''Failed to operate on some paths (empty records were listed):''
                        @ [CHR 0x0A] @ '' ValueError: 1 paths'')\<rparr>
   \<and> fst (call_fn example_env (get_metadata_ls ''corrupt.nwb'' (Some [''age'']) True None False)
            \<lparr>errors = [], calls = []\<rparr>) = Inr (Some [])
   \<and> ls example_env example_all_fields (Some [''path'', ''size'']) Json None False
        [VStr ''missing.nwb'']
     = \<lparr>raised = None,
        emitted = [\<lparr>rec_fields = [(''path'', VStr ''missing.nwb''), (''errors'', VInt 1)],
                    rec_async = None\<rparr>],
        final = \<lparr>errors = [(''FileNotFoundError'', [VStr ''missing.nwb''])],
                 calls = [CStat ''missing.nwb'']\<rparr>,
        warning = Some (''Failed to operate on some paths (empty records were listed):''
                        @ [CHR 0x0A] @ '' FileNotFoundError: 1 paths'')\<rparr>"
  by (simp add: ls_def pyout_fields_def async_keys_def common_fields_def example_all_fields_def
      ls_asset_def ls_try_def ls_try_async_def fields_falsy_def fields_has_def get_metadata_ls_def
      call_fn_def fn_extract_def fn_try_body_def digest_of_def is_zarr_def endswith_def
      example_env_def add_exc_error_def ledger_append_def dget_def plus_one_def fn_select_def
      fn_nwb_version_def ls_emit_def summary_def str_int_def str_nat.simps Let_def dhas_def
      flatten_meta_to_pyout_def)

end
